theory Spec2Isabelle
  imports Complex_Main "HOL-Library.Product_Lexorder"
begin

section \<open>Conventions of the embedding\<close>

text \<open>
  The repository is a set of stand-alone Python scripts that decode option contract
  symbols, build strike ladders, select and price two-leg spreads, group held positions
  and keep a moving average of a spread price.

  \<^item> Python \<open>float\<close> prices, strikes and averages are modelled as exact rationals
    (\<^typ>\<open>rat\<close>): the scripts read decimal quotes and combine them with \<open>+\<close>, \<open>-\<close>,
    \<open>*\<close>, \<open>/\<close> and \<open>round\<close>; binary rounding noise and NaN are outside the model.
  \<^item> Python \<open>str\<close> is \<^typ>\<open>string\<close>; the model covers ASCII symbols.
  \<^item> A \<open>datetime.date\<close> is the triple (year, month, day), ordered lexicographically as
    Python orders dates.
  \<^item> Every call to the brokerage API is a parameter of the function that makes it: the
    model receives what the API answered.
  \<^item> A \<open>return None\<close>, a \<open>sys.exit\<close> and an uncaught exception are values of a result
    type, tagged by the place they come from.
\<close>

type_synonym date = "nat \<times> nat \<times> nat"

section \<open>Python primitives used by the codec\<close>

definition is_digit :: "char \<Rightarrow> bool" where
  "is_digit c \<longleftrightarrow> c \<in> set ''0123456789''"

definition is_upper :: "char \<Rightarrow> bool" where
  "is_upper c \<longleftrightarrow> c \<in> set ''ABCDEFGHIJKLMNOPQRSTUVWXYZ''"

definition digit_val :: "char \<Rightarrow> nat" where
  "digit_val c = of_char c - 48"

text \<open>The decimal value of a run of digits, most significant first.\<close>

fun dec_value :: "nat \<Rightarrow> string \<Rightarrow> nat" where
  "dec_value acc [] = acc"
| "dec_value acc (c # cs) = dec_value (10 * acc + digit_val c) cs"

text \<open>
  Python's \<open>int(s)\<close> on a string, base 10: white space around the literal is dropped, one
  sign is allowed, and single underscores may separate digits. Anything else raises
  \<open>ValueError\<close>, here \<open>None\<close>.
\<close>

definition is_space :: "char \<Rightarrow> bool" where
  "is_space c \<longleftrightarrow> c \<in> set [CHR 0x09, CHR 0x0A, CHR 0x0B, CHR 0x0C, CHR 0x0D,
                               CHR 0x1C, CHR 0x1D, CHR 0x1E, CHR 0x1F, CHR 0x20]"

definition strip :: "string \<Rightarrow> string" where
  "strip s = rev (dropWhile is_space (rev (dropWhile is_space s)))"

fun int_body_ok :: "string \<Rightarrow> bool" where
  "int_body_ok [] = False"
| "int_body_ok [c] = is_digit c"
| "int_body_ok (c # d # cs) =
     (is_digit c \<and> (if d = CHR ''_'' then int_body_ok cs else int_body_ok (d # cs)))"

definition py_int :: "string \<Rightarrow> int option" where
  "py_int s =
     (let t = strip s;
          neg = (t \<noteq> [] \<and> hd t = CHR ''-'');
          body = (if t \<noteq> [] \<and> (hd t = CHR ''-'' \<or> hd t = CHR ''+'') then tl t else t)
      in if int_body_ok body
         then Some ((if neg then - 1 else 1) * int (dec_value 0 (filter (\<lambda>c. c \<noteq> CHR ''_'') body)))
         else None)"

text \<open>
  \<open>datetime.strptime(s, '%y%m%d').date()\<close>. The format compiles to the regular
  expression \<open>(\d\d)(1[0-2]|0[1-9]|[1-9])(3[01]|[12]\d|0[1-9]|[1-9]| [1-9])\<close>; the first
  match in the order of the alternatives is taken, and the call raises \<open>ValueError\<close>
  when there is no match, when the match does not reach the end of the string, or when
  the day does not exist in the month.
\<close>

definition is_leap :: "nat \<Rightarrow> bool" where
  "is_leap y \<longleftrightarrow> y mod 4 = 0 \<and> (y mod 100 \<noteq> 0 \<or> y mod 400 = 0)"

definition days_in_month :: "nat \<Rightarrow> nat \<Rightarrow> nat" where
  "days_in_month y m =
     (if m = 2 then (if is_leap y then 29 else 28)
      else if m \<in> {4, 6, 9, 11} then 30 else 31)"

definition valid_date :: "date \<Rightarrow> bool" where
  "valid_date d =
     (case d of (y, m, dd) \<Rightarrow> 1 \<le> m \<and> m \<le> 12 \<and> 1 \<le> dd \<and> dd \<le> days_in_month y m)"

text \<open>Each matcher returns the value read and the rest of the string.\<close>

fun match_month :: "string \<Rightarrow> (nat \<times> string) list" where
  "match_month (a # b # r) =
     (if a = CHR ''1'' \<and> b \<in> set ''012'' then [(10 + digit_val b, r)] else []) @
     (if a = CHR ''0'' \<and> b \<in> set ''123456789'' then [(digit_val b, r)] else []) @
     (if a \<in> set ''123456789'' then [(digit_val a, b # r)] else [])"
| "match_month [a] = (if a \<in> set ''123456789'' then [(digit_val a, [])] else [])"
| "match_month [] = []"

fun match_day :: "string \<Rightarrow> (nat \<times> string) list" where
  "match_day (a # b # r) =
     (if a = CHR ''3'' \<and> b \<in> set ''01'' then [(30 + digit_val b, r)] else []) @
     (if a \<in> set ''12'' \<and> is_digit b then [(10 * digit_val a + digit_val b, r)] else []) @
     (if a = CHR ''0'' \<and> b \<in> set ''123456789'' then [(digit_val b, r)] else []) @
     (if a \<in> set ''123456789'' then [(digit_val a, b # r)] else []) @
     (if a = CHR '' '' \<and> b \<in> set ''123456789'' then [(digit_val b, r)] else [])"
| "match_day [a] = (if a \<in> set ''123456789'' then [(digit_val a, [])] else [])"
| "match_day [] = []"

definition century :: "nat \<Rightarrow> nat" where
  "century yy = (if yy \<le> 68 then 2000 + yy else 1900 + yy)"

definition strptime_ymd :: "string \<Rightarrow> date option" where
  "strptime_ymd s =
     (case s of
        a # b # r \<Rightarrow>
          if is_digit a \<and> is_digit b then
            (case concat (map (\<lambda>(m, r'). map (\<lambda>(d, r''). (m, d, r'')) (match_day r'))
                              (match_month r)) of
               [] \<Rightarrow> None
             | (m, d, rest) # _ \<Rightarrow>
                 let dt = (century (10 * digit_val a + digit_val b), m, d)
                 in if rest = [] \<and> valid_date dt then Some dt else None)
          else None
      | _ \<Rightarrow> None)"

section \<open>Contract symbol codec\<close>

text \<open>
  \<open>parse_strike\<close> (Alpaca_SDK_Options_Functionality_test.py and
  simple_graph_monitoring_spread_value.py): calls only, strike = last 8 characters / 1000.
\<close>

definition parse_strike :: "string \<Rightarrow> rat option" where
  "parse_strike contract_symbol =
     (if length contract_symbol < 9 \<or> contract_symbol ! (length contract_symbol - 9) \<noteq> CHR ''C''
      then None
      else (case py_int (drop (length contract_symbol - 8) contract_symbol) of
              None \<Rightarrow> None
            | Some n \<Rightarrow> Some (of_int n / 1000)))"

text \<open>
  \<open>parse_expiration\<close> (the same in the three SDK scripts): the slice \<open>[2:8]\<close> of a
  symbol of at least 15 characters.
\<close>

definition parse_expiration :: "string \<Rightarrow> date option" where
  "parse_expiration contract_symbol =
     (if length contract_symbol < 15 then None
      else strptime_ymd (take 6 (drop 2 contract_symbol)))"

text \<open>
  \<open>parse_option_symbol\<close> (asset_management_websocket_subscription.py):
  \<open>re.match(r'([A-Z]+)(\d{6})([CP])(\d{8})', symbol)\<close>. The match is anchored at the start
  only. The greedy letter run cannot give a letter back, because the next group needs a
  digit, so the groups are cut at fixed places after the longest run of capital letters.
  No match gives \<open>(None, None, None, None)\<close>, here \<open>None\<close>.
\<close>

definition parse_option_symbol :: "string \<Rightarrow> (string \<times> string \<times> char \<times> rat) option" where
  "parse_option_symbol symbol =
     (let underlying = takeWhile is_upper symbol;
          r = dropWhile is_upper symbol;
          exp' = take 6 r;
          opt_type = take 1 (drop 6 r);
          strike_str = take 8 (drop 7 r)
      in if underlying \<noteq> [] \<and> length exp' = 6 \<and> list_all is_digit exp' \<and>
            (opt_type = ''C'' \<or> opt_type = ''P'') \<and>
            length strike_str = 8 \<and> list_all is_digit strike_str
         then (case py_int strike_str of
                 None \<Rightarrow> None
               | Some n \<Rightarrow> Some (underlying, exp', hd opt_type, of_int n / 1000))
         else None)"

text \<open>
  The scripts never encode a symbol. To state what decoding gives back, a date is written
  the way the symbols carry it: six digits, two each for year, month and day.
\<close>

definition digit_char :: "nat \<Rightarrow> char" where
  "digit_char n = ''0123456789'' ! n"

definition two_digits :: "nat \<Rightarrow> string" where
  "two_digits n = [digit_char (n div 10), digit_char (n mod 10)]"

definition yymmdd :: "nat \<Rightarrow> nat \<Rightarrow> nat \<Rightarrow> string" where
  "yymmdd yy mm dd = two_digits yy @ two_digits mm @ two_digits dd"

section \<open>Data received from the brokerage API\<close>

record quote =
  bid_price :: rat
  ask_price :: rat

text \<open>
  An option snapshot of the SDK. \<open>latest_quote\<close> may be missing, and reading
  \<open>v.latest_quote.bid_price\<close> then raises \<open>AttributeError\<close>.
\<close>

record snapshot =
  latest_quote :: "quote option"
  strike_price :: "rat option"

text \<open>A chain is a Python dict from contract symbol to snapshot, in insertion order.\<close>

type_synonym chain = "(string \<times> snapshot) list"

text \<open>
  Every way a function ends without its result. The scripts report all of them by a
  printed or logged message and \<open>return\<close> (or \<open>sys.exit\<close>); the constructor says
  which message.
\<close>

datatype failure =
    EmptyChain             \<comment> \<open>\<open>if not chain\<close>\<close>
  | NoContracts            \<comment> \<open>\<open>if df.empty\<close>\<close>
  | NoEligibleExpiration   \<comment> \<open>"No expiration found with enough contracts."\<close>
  | NoSpreadWidthMatch     \<comment> \<open>"No short strike found for spread of ..."\<close>
  | StrikeNotFound         \<comment> \<open>"No contracts found for long strike ... or short strike ..."\<close>
  | ExpirationMismatch     \<comment> \<open>"Mismatched expirations ..."\<close>
  | NoSpreadFound          \<comment> \<open>"No suitable spread found."\<close>
  | NoSnapshots            \<comment> \<open>"Failed to retrieve option snapshots."\<close>
  | IncompleteData         \<comment> \<open>"Incomplete option data."\<close>
  | InvalidContracts       \<comment> \<open>"Cannot place spread: Invalid contract(s) ..."\<close>
  | MissingQuotes          \<comment> \<open>"Cannot calculate ... price: Missing quotes ..."\<close>
  | NonPositivePrice rat   \<comment> \<open>"Invalid spread price" / "Invalid net credit for closing"\<close>
  | AttributeError         \<comment> \<open>uncaught exception: a snapshot without a quote\<close>
  | ValueError             \<comment> \<open>uncaught exception: \<open>idxmin\<close> of an empty column\<close>

section \<open>Data frames\<close>

text \<open>
  A pandas data frame is the list of its rows. \<open>sort_values(col)\<close> orders the rows by
  one column; the model keeps rows with equal keys in their former order, where pandas'
  default sort may order them otherwise. \<open>groupby(col)\<close> iterates over the distinct keys
  in ascending order, each with its rows in frame order. Which expiration is selected,
  which rows its group holds and which strikes are least do not depend on the order of
  rows with equal keys; only the choice between two rows at the same distance does.
\<close>

record base_row =
  symbol :: string
  strike :: rat
  expiration :: date

record row = base_row +
  bid :: rat
  ask :: rat

definition sort_values :: "('r \<Rightarrow> 'k::linorder) \<Rightarrow> 'r list \<Rightarrow> 'r list" where
  "sort_values col df = sort_key col df"

definition groupby :: "('r \<Rightarrow> 'k::linorder) \<Rightarrow> 'r list \<Rightarrow> ('k \<times> 'r list) list" where
  "groupby col df =
     map (\<lambda>k. (k, filter (\<lambda>r. col r = k) df)) (sorted_list_of_set (set (map col df)))"

text \<open>
  \<open>Series.idxmin()\<close> and \<open>Series.argmin()\<close>: the first row where the column is least;
  \<open>ValueError\<close> (\<open>None\<close>) on an empty column.
\<close>

fun first_min :: "('r \<Rightarrow> rat) \<Rightarrow> 'r \<Rightarrow> 'r list \<Rightarrow> 'r" where
  "first_min f b [] = b"
| "first_min f b (x # xs) = first_min f (if f x < f b then x else b) xs"

definition argmin_row :: "('r \<Rightarrow> rat) \<Rightarrow> 'r list \<Rightarrow> 'r option" where
  "argmin_row f df = (case df of [] \<Rightarrow> None | x # xs \<Rightarrow> Some (first_min f x xs))"

section \<open>Spread selection (Alpaca_SDK_Options_Functionality_test.py)\<close>

text \<open>The loop that fills \<open>data\<close> from \<open>chain.items()\<close>.\<close>

fun chain_rows :: "chain \<Rightarrow> failure + row list" where
  "chain_rows [] = Inr []"
| "chain_rows ((k, v) # kvs) =
     (case (parse_strike k, parse_expiration k) of
        (Some strike', Some exp') \<Rightarrow>
          (case latest_quote v of
             None \<Rightarrow> Inl AttributeError
           | Some q \<Rightarrow>
               (case chain_rows kvs of
                  Inl e \<Rightarrow> Inl e
                | Inr data \<Rightarrow>
                    Inr (\<lparr>symbol = k, strike = strike', expiration = exp',
                          bid = bid_price q, ask = ask_price q\<rparr> # data)))
      | _ \<Rightarrow> chain_rows kvs)"

text \<open>
  "Group by expiration and find the soonest with at least 2 contracts": the \<open>for\<close> loop
  over the groups with its \<open>break\<close>.
\<close>

definition soonest_exp :: "('r \<Rightarrow> date) \<Rightarrow> 'r list \<Rightarrow> (date \<times> 'r list) option" where
  "soonest_exp col df =
     find (\<lambda>(e, group). length group \<ge> 2) (groupby col (sort_values col df))"

text \<open>
  The strike closest to the stock price, then the short strike at least
  \<open>strike_spread\<close> higher and closest to that target.
\<close>

definition select_strikes :: "rat \<Rightarrow> rat \<Rightarrow> row list \<Rightarrow> failure + (row \<times> row)" where
  "select_strikes stock_price strike_spread df_group =
     (case argmin_row (\<lambda>r. \<bar>strike r - stock_price\<bar>) df_group of
        None \<Rightarrow> Inl ValueError
      | Some long_strike \<Rightarrow>
          let short_candidates =
                filter (\<lambda>r. strike r \<ge> strike long_strike + strike_spread) df_group
          in (case argmin_row (\<lambda>r. \<bar>strike r - (strike long_strike + strike_spread)\<bar>)
                     short_candidates of
                None \<Rightarrow> Inl NoSpreadWidthMatch
              | Some short_strike \<Rightarrow> Inr (long_strike, short_strike)))"

definition find_closest_bull_spread ::
    "rat \<Rightarrow> chain option \<Rightarrow> rat \<Rightarrow> failure + (string \<times> string \<times> rat)" where
  "find_closest_bull_spread stock_price chain strike_spread =
     (case chain of
        None \<Rightarrow> Inl EmptyChain
      | Some [] \<Rightarrow> Inl EmptyChain
      | Some items \<Rightarrow>
          (case chain_rows items of
             Inl e \<Rightarrow> Inl e
           | Inr [] \<Rightarrow> Inl NoContracts
           | Inr df \<Rightarrow>
               (case soonest_exp expiration df of
                  None \<Rightarrow> Inl NoEligibleExpiration
                | Some (soonest, df_group) \<Rightarrow>
                    (case select_strikes stock_price strike_spread df_group of
                       Inl e \<Rightarrow> Inl e
                     | Inr (long_strike, short_strike) \<Rightarrow>
                         Inr (symbol long_strike, symbol short_strike,
                              (ask long_strike - bid short_strike) * 100)))))"

text \<open>
  \<open>main\<close>, from the call of \<open>find_closest_bull_spread\<close> on; the lines before it only
  fetch the stock price and the chain. \<open>get_option_snapshot\<close> is the API call. The order
  is a limit order of class MLEG, time in force DAY, for one spread.
\<close>

datatype order_side = BUY | SELL

record option_leg_request =
  leg_symbol :: string
  leg_side :: order_side
  ratio_qty :: nat

record limit_order_request =
  qty :: nat
  side :: order_side
  limit_price :: rat
  legs :: "option_leg_request list"

definition STRIKE_SPREAD :: rat where
  "STRIKE_SPREAD = 5 / 2"

text \<open>The part of \<open>main\<close> after the two contracts are known, up to \<open>submit_order\<close>.\<close>

definition main_submit ::
    "string \<Rightarrow> string \<Rightarrow> rat \<Rightarrow> (string list \<Rightarrow> chain option) \<Rightarrow> failure + limit_order_request" where
  "main_submit long_contract short_contract spread_cost get_option_snapshot =
     (case get_option_snapshot [long_contract, short_contract] of
        None \<Rightarrow> Inl NoSnapshots
      | Some [] \<Rightarrow> Inl NoSnapshots
      | Some snapshots \<Rightarrow>
          (case (map_of snapshots long_contract, map_of snapshots short_contract) of
             (Some long_data, Some short_data) \<Rightarrow>
               if parse_expiration long_contract \<noteq> parse_expiration short_contract
               then Inl ExpirationMismatch
               else if latest_quote long_data = None \<or> latest_quote short_data = None
               then Inl AttributeError
               else Inr \<lparr>qty = 1, side = BUY, limit_price = spread_cost / 100,
                         legs = [\<lparr>leg_symbol = long_contract, leg_side = BUY, ratio_qty = 1\<rparr>,
                                 \<lparr>leg_symbol = short_contract, leg_side = SELL, ratio_qty = 1\<rparr>]\<rparr>
           | _ \<Rightarrow> Inl IncompleteData))"

definition main ::
    "rat \<Rightarrow> chain option \<Rightarrow> (string list \<Rightarrow> chain option) \<Rightarrow> failure + limit_order_request" where
  "main stock_price chain get_option_snapshot =
     (case find_closest_bull_spread stock_price chain STRIKE_SPREAD of
        Inl AttributeError \<Rightarrow> Inl AttributeError
      | Inl ValueError \<Rightarrow> Inl ValueError
      | Inl _ \<Rightarrow> Inl NoSpreadFound
      | Inr (long_contract, short_contract, spread_cost) \<Rightarrow>
          if long_contract = [] \<or> short_contract = [] then Inl NoSpreadFound
          else main_submit long_contract short_contract spread_cost get_option_snapshot)"

section \<open>Exact-strike lookup (updated_bp_spread_example-42-friendly_v3.py)\<close>




section \<open>Strike ladders\<close>

text \<open>
  The request sent to \<open>get_option_chain\<close>: underlying symbol, contract type, expiration
  date, least and greatest strike. What comes back is the API's answer, \<open>None\<close> when the
  call raised.
\<close>

type_synonym chain_request = "string \<times> string \<times> string \<times> rat \<times> rat"

text \<open>\<open>get_strikes\<close> of simple_graph_monitoring_spread_value.py: strikes decoded from the keys.\<close>

definition get_strikes ::
    "(chain_request \<Rightarrow> chain option) \<Rightarrow> string \<Rightarrow> string \<Rightarrow> string \<Rightarrow> rat \<Rightarrow> rat \<Rightarrow> rat list" where
  "get_strikes get_option_chain symbol' expiration' option_type strike_min strike_max =
     (case get_option_chain (symbol', option_type, expiration', strike_min, strike_max) of
        None \<Rightarrow> []
      | Some chain \<Rightarrow> sorted_list_of_set (set (List.map_filter parse_strike (map fst chain))))"

text \<open>\<open>get_strikes\<close> of updated_bp_spread_example-42-friendly_v3.py: strikes read from the snapshots.\<close>

definition get_strikes_v3 ::
    "(chain_request \<Rightarrow> chain option) \<Rightarrow> string \<Rightarrow> string \<Rightarrow> string \<Rightarrow> rat \<Rightarrow> rat \<Rightarrow> rat list" where
  "get_strikes_v3 get_option_chain symbol' expiration' option_type strike_min strike_max =
     (case get_option_chain (symbol', option_type, expiration', strike_min, strike_max) of
        None \<Rightarrow> []
      | Some chain \<Rightarrow> sorted_list_of_set (set (List.map_filter (\<lambda>(k, v). strike_price v) chain)))"

text \<open>
  The fall-back of \<open>find_initial_spread\<close> (simple_graph_monitoring_spread_value.py) when
  the pinned expiration has no strikes: all contracts, soonest expiration with two of them.
\<close>

fun chain_base_rows :: "chain \<Rightarrow> base_row list" where
  "chain_base_rows [] = []"
| "chain_base_rows ((k, v) # kvs) =
     (case (parse_strike k, parse_expiration k) of
        (Some strike', Some exp') \<Rightarrow>
          \<lparr>symbol = k, strike = strike', expiration = exp'\<rparr> # chain_base_rows kvs
      | _ \<Rightarrow> chain_base_rows kvs)"

definition fallback_strikes :: "chain option \<Rightarrow> failure + (date \<times> rat list)" where
  "fallback_strikes chain =
     (case chain of
        None \<Rightarrow> Inl EmptyChain
      | Some [] \<Rightarrow> Inl EmptyChain
      | Some items \<Rightarrow>
          (case chain_base_rows items of
             [] \<Rightarrow> Inl NoContracts
           | df \<Rightarrow>
               (case soonest_exp expiration df of
                  None \<Rightarrow> Inl NoEligibleExpiration
                | Some (soonest, df_group) \<Rightarrow>
                    Inr (soonest, sorted_list_of_set (set (map strike df_group))))))"

section \<open>Orders through the REST API\<close>

text \<open>
  Python's \<open>round(x, 2)\<close>, on the exact value: to the nearest hundredth, a tie to the even
  one.
\<close>

definition round_half_even :: "rat \<Rightarrow> int" where
  "round_half_even x =
     (let f = \<lfloor>x\<rfloor>; d = x - of_int f
      in if d < 1 / 2 then f else if 1 / 2 < d then f + 1 else if even f then f else f + 1)"

definition py_round2 :: "rat \<Rightarrow> rat" where
  "py_round2 x = of_int (round_half_even (x * 100)) / 100"

record contract =
  contract_symbol :: string
  underlying_symbol :: string
  contract_strike :: rat

text \<open>The latest quote of the REST snapshot: \<open>ap\<close> the ask price, \<open>bp\<close> the bid price.\<close>

record rest_quote =
  ap :: rat
  bp :: rat

record mleg_leg =
  mleg_symbol :: string
  mleg_ratio_qty :: nat
  mleg_side :: order_side
  position_intent :: string

record mleg_payload =
  payload_qty :: int
  payload_limit_price :: rat
  payload_side :: "order_side option"
  payload_legs :: "mleg_leg list"

type_synonym contracts_request = "string \<times> string \<times> string \<times> rat \<times> rat"

text \<open>
  \<open>get_option_contracts\<close> (test_option_chain.py). \<open>http_get\<close> is the request to
  \<open>/v2/options/contracts\<close>, \<open>None\<close> when it raised.
\<close>

definition get_option_contracts ::
    "(contracts_request \<Rightarrow> contract list option) \<Rightarrow> string \<Rightarrow> string \<Rightarrow> string \<Rightarrow> rat \<Rightarrow> rat
       \<Rightarrow> contract list" where
  "get_option_contracts http_get symbol' expiration' option_type strike_min strike_max =
     (case http_get (symbol', expiration', option_type, strike_min, strike_max) of
        None \<Rightarrow> []
      | Some contracts \<Rightarrow> filter (\<lambda>c. underlying_symbol c = symbol') contracts)"

text \<open>
  \<open>place_spread_order\<close> (test_option_chain.py). \<open>Inr\<close> is the payload posted to
  \<open>/v2/orders\<close>; \<open>get_option_quote\<close> is the snapshot request, \<open>None\<close> when it failed.
\<close>

definition place_spread_order ::
    "(contracts_request \<Rightarrow> contract list option) \<Rightarrow> (string \<Rightarrow> rest_quote option) \<Rightarrow>
       string \<Rightarrow> rat \<Rightarrow> rat \<Rightarrow> string \<Rightarrow> string \<Rightarrow> failure + mleg_payload" where
  "place_spread_order http_get get_option_quote symbol' buy_strike sell_strike expiration' option_type =
     (case (find (\<lambda>c. contract_strike c = buy_strike)
              (get_option_contracts http_get symbol' expiration' option_type buy_strike buy_strike),
            find (\<lambda>c. contract_strike c = sell_strike)
              (get_option_contracts http_get symbol' expiration' option_type sell_strike sell_strike)) of
        (Some buy_contract, Some sell_contract) \<Rightarrow>
          let buy_symbol = contract_symbol buy_contract;
              sell_symbol = contract_symbol sell_contract
          in (case (get_option_quote buy_symbol, get_option_quote sell_symbol) of
                (Some buy_quote, Some sell_quote) \<Rightarrow>
                  let buy_price = ap buy_quote;
                      sell_price = bp sell_quote;
                      spread_price = py_round2 (buy_price - sell_price)
                  in if spread_price \<le> 0 then Inl (NonPositivePrice spread_price)
                     else Inr \<lparr>payload_qty = 1, payload_limit_price = spread_price,
                               payload_side = None,
                               payload_legs =
                                 [\<lparr>mleg_symbol = buy_symbol, mleg_ratio_qty = 1, mleg_side = BUY,
                                   position_intent = ''buy_to_open''\<rparr>,
                                  \<lparr>mleg_symbol = sell_symbol, mleg_ratio_qty = 1, mleg_side = SELL,
                                   position_intent = ''sell_to_open''\<rparr>]\<rparr>
              | _ \<Rightarrow> Inl MissingQuotes)
      | _ \<Rightarrow> Inl InvalidContracts)"

text \<open>\<open>close_mleg_spread\<close> (test_sell_2leg_option.py).\<close>

definition net_credit :: "rest_quote \<Rightarrow> rest_quote \<Rightarrow> rat \<Rightarrow> rat" where
  "net_credit long_quote short_quote min_credit =
     (let long_mid = (bp long_quote + ap long_quote) / 2;
          short_mid = (bp short_quote + ap short_quote) / 2;
          net = py_round2 (long_mid - short_mid)
      in if min_credit > 0 then max net min_credit else net)"

definition close_mleg_spread ::
    "(string \<Rightarrow> rest_quote option) \<Rightarrow> string \<Rightarrow> string \<Rightarrow> int \<Rightarrow> rat \<Rightarrow> failure + mleg_payload" where
  "close_mleg_spread get_option_quote long_symbol short_symbol qty' min_credit =
     (case (get_option_quote long_symbol, get_option_quote short_symbol) of
        (Some long_quote, Some short_quote) \<Rightarrow>
          let credit = net_credit long_quote short_quote min_credit
          in if credit \<le> 0 then Inl (NonPositivePrice credit)
             else Inr \<lparr>payload_qty = qty', payload_limit_price = credit,
                       payload_side = Some SELL,
                       payload_legs =
                         [\<lparr>mleg_symbol = long_symbol, mleg_ratio_qty = 1, mleg_side = SELL,
                           position_intent = ''sell_to_close''\<rparr>,
                          \<lparr>mleg_symbol = short_symbol, mleg_ratio_qty = 1, mleg_side = BUY,
                           position_intent = ''buy_to_close''\<rparr>]\<rparr>
      | _ \<Rightarrow> Inl MissingQuotes)"

section \<open>Position grouping (asset_management_websocket_subscription.py)\<close>

record position =
  pos_symbol :: string
  asset_class :: string
  pos_side :: string

text \<open>\<open>s.lower()\<close> and \<open>sub in s\<close> on ASCII strings.\<close>

definition lower :: "string \<Rightarrow> string" where
  "lower s = map (\<lambda>c. if is_upper c then char_of (of_char c + (32::nat)) else c) s"

fun contains :: "string \<Rightarrow> string \<Rightarrow> bool" where
  "contains sub [] = (sub = [])"
| "contains sub (c # cs) = (take (length sub) (c # cs) = sub \<or> contains sub cs)"

text \<open>
  A Python dict keeps its keys in the order of their first insertion:
  \<open>groups[key].append(pos)\<close> on a \<open>defaultdict(list)\<close>, and \<open>spreads[key] = value\<close>.
\<close>

fun dict_append :: "'k \<Rightarrow> 'v \<Rightarrow> ('k \<times> 'v list) list \<Rightarrow> ('k \<times> 'v list) list" where
  "dict_append k v [] = [(k, [v])]"
| "dict_append k v ((k', vs) # d) =
     (if k' = k then (k', vs @ [v]) # d else (k', vs) # dict_append k v d)"

fun dict_set :: "'k \<Rightarrow> 'v \<Rightarrow> ('k \<times> 'v) list \<Rightarrow> ('k \<times> 'v) list" where
  "dict_set k v [] = [(k, v)]"
| "dict_set k v ((k', v') # d) = (if k' = k then (k', v) # d else (k', v') # dict_set k v d)"

type_synonym spread_key = "string \<times> string \<times> char"

text \<open>The key under which \<open>find_spreads\<close> files a position, if it files it at all.\<close>

definition position_key :: "position \<Rightarrow> spread_key option" where
  "position_key pos =
     (if contains ''option'' (lower (asset_class pos)) then
        (case parse_option_symbol (pos_symbol pos) of
           Some (underlying, exp', opt_type, strike') \<Rightarrow>
             if underlying \<noteq> [] \<and> opt_type = CHR ''C'' then Some (underlying, exp', opt_type)
             else None
         | None \<Rightarrow> None)
      else None)"

definition group_positions :: "position list \<Rightarrow> (spread_key \<times> position list) list" where
  "group_positions all_positions =
     foldl (\<lambda>groups pos. case position_key pos of
                           Some key \<Rightarrow> dict_append key pos groups
                         | None \<Rightarrow> groups)
           [] all_positions"

text \<open>
  The sort key \<open>parse_option_symbol(p.symbol)[3]\<close>. Every position in a group has a
  symbol that parses; the default is never read.
\<close>

definition strike_key :: "position \<Rightarrow> rat" where
  "strike_key p =
     (case parse_option_symbol (pos_symbol p) of
        Some (underlying, exp', opt_type, strike') \<Rightarrow> strike'
      | None \<Rightarrow> 0)"

definition spread_id :: "spread_key \<Rightarrow> string" where
  "spread_id key = (case key of (underlying, exp', opt_type) \<Rightarrow> underlying @ ''_'' @ exp' @ ''_bull_call'')"

text \<open>What the second loop does with one group: the pair it stores, if any.\<close>

definition pair_legs :: "position list \<Rightarrow> (position \<times> position) option" where
  "pair_legs group' =
     (if length group' \<ge> 2 then
        (case sort_key strike_key group' of
           long_leg # short_leg # _ \<Rightarrow>
             if pos_side long_leg = ''long'' \<and> pos_side short_leg = ''short''
             then Some (long_leg, short_leg) else None
         | _ \<Rightarrow> None)
      else None)"

definition find_spreads :: "position list \<Rightarrow> (string \<times> position \<times> position) list" where
  "find_spreads all_positions =
     foldl (\<lambda>spreads (key, group). case pair_legs group of
                                      Some pair \<Rightarrow> dict_set (spread_id key) pair spreads
                                    | None \<Rightarrow> spreads)
           [] (group_positions all_positions)"

section \<open>Spread price series and moving average (simple_graph_monitoring_spread_value.py)\<close>

definition MA_PERIOD :: nat where
  "MA_PERIOD = 10"

text \<open>The two module-level lists; \<open>None\<close> in \<open>ma_values\<close> is Python's \<open>None\<close>.\<close>

record tracker =
  spread_prices :: "rat list"
  ma_values :: "rat option list"

definition initial_tracker :: tracker where
  "initial_tracker = \<lparr>spread_prices = [], ma_values = []\<rparr>"

text \<open>
  \<open>pd.Series(xs).rolling(window=w).mean().iloc[-1]\<close>: the mean of the last \<open>w\<close>
  values; with fewer values pandas gives NaN, which the callers exclude beforehand.
\<close>

definition rolling_mean_last :: "nat \<Rightarrow> rat list \<Rightarrow> rat option" where
  "rolling_mean_last w xs =
     (if length xs < w then None
      else Some (sum_list (drop (length xs - w) xs) / of_nat w))"

text \<open>
  \<open>update_graph\<close>, the part that changes the series. Its argument is what
  \<open>get_spread_price\<close> returned for the current minute.
\<close>

definition update_graph :: "rat option \<Rightarrow> tracker \<Rightarrow> tracker" where
  "update_graph spread_price st =
     (case spread_price of
        None \<Rightarrow> st
      | Some p \<Rightarrow>
          let prices = spread_prices st @ [p]
          in \<lparr>spread_prices = prices,
              ma_values = ma_values st @
                [if length prices \<ge> MA_PERIOD then rolling_mean_last MA_PERIOD prices else None]\<rparr>)"

text \<open>
  The module-level block "Pre-populate with historical snapshots (last 10 minutes)":
  \<open>historical i\<close> is what \<open>get_spread_price\<close> returned for \<open>i\<close> minutes ago, and
  \<open>i\<close> runs over \<open>range(10, 0, -1)\<close>. Prices that could not be fetched are left out.
\<close>

definition backfill_minutes :: "nat list" where
  "backfill_minutes = [10, 9, 8, 7, 6, 5, 4, 3, 2, 1]"

definition prepopulate :: "(nat \<Rightarrow> rat option) \<Rightarrow> tracker \<Rightarrow> tracker" where
  "prepopulate historical st =
     (let prices = spread_prices st @ List.map_filter historical backfill_minutes
      in \<lparr>spread_prices = prices,
          ma_values = ma_values st @
            (if length prices \<ge> MA_PERIOD
             then replicate (length prices - MA_PERIOD) None @ [rolling_mean_last MA_PERIOD prices]
             else replicate (length prices) None)\<rparr>)"

text \<open>A run of the script: the pre-population, then one \<open>update_graph\<close> per minute.\<close>

definition run_tracker :: "(nat \<Rightarrow> rat option) \<Rightarrow> rat option list \<Rightarrow> tracker" where
  "run_tracker historical live = foldl (\<lambda>st p. update_graph p st) (prepopulate historical initial_tracker) live"

section \<open>Example inputs\<close>

text \<open>Quotes of three BP calls, as the REST snapshot request returns them.\<close>

definition example_quotes :: "string \<Rightarrow> rest_quote option" where
  "example_quotes s =
     (if s = ''BP250815C00030000'' then Some \<lparr>ap = 16 / 5, bp = 3\<rparr>
      else if s = ''BP250815C00032500'' then Some \<lparr>ap = 6 / 5, bp = 1\<rparr>
      else if s = ''BP250919C00032500'' then Some \<lparr>ap = 6 / 5, bp = 1\<rparr>
      else None)"


definition example_contracts_mixed :: "contracts_request \<Rightarrow> contract list option" where
  "example_contracts_mixed req =
     (case req of (symbol', expiration', option_type, strike_min, strike_max) \<Rightarrow>
        Some (filter (\<lambda>c. strike_min \<le> contract_strike c \<and> contract_strike c \<le> strike_max)
                [\<lparr>contract_symbol = ''BP250815C00030000'', underlying_symbol = ''BP'',
                  contract_strike = 30\<rparr>,
                 \<lparr>contract_symbol = ''BP250919C00032500'', underlying_symbol = ''BP'',
                  contract_strike = 65 / 2\<rparr>]))"

text \<open>The SDK's snapshots of the same contracts.\<close>

definition example_snapshots :: "string list \<Rightarrow> chain option" where
  "example_snapshots contract_symbols =
     Some (map (\<lambda>k. (k, \<lparr>latest_quote =
                             Some (if k = ''BP250815C00030000''
                                   then \<lparr>bid_price = 3, ask_price = 16 / 5\<rparr>
                                   else \<lparr>bid_price = 1, ask_price = 6 / 5\<rparr>),
                           strike_price = None\<rparr>))
               contract_symbols)"

text \<open>
  A chain of BP contracts as the SDK returns it: calls of three expirations and one put,
  with the rows, the soonest group of at least two rows, and the API that answers with it.
\<close>

definition example_chain :: chain where
  "example_chain =
     [(''BP250919C00100000'', \<lparr>latest_quote = Some \<lparr>bid_price = 5, ask_price = 26 / 5\<rparr>, strike_price = Some 100\<rparr>),
      (''BP250815C00095000'', \<lparr>latest_quote = Some \<lparr>bid_price = 8, ask_price = 41 / 5\<rparr>, strike_price = Some 95\<rparr>),
      (''BP250815C00100000'', \<lparr>latest_quote = Some \<lparr>bid_price = 3, ask_price = 16 / 5\<rparr>, strike_price = Some 100\<rparr>),
      (''BP250808C00100000'', \<lparr>latest_quote = Some \<lparr>bid_price = 2, ask_price = 11 / 5\<rparr>, strike_price = Some 100\<rparr>),
      (''BP250815C00105000'', \<lparr>latest_quote = Some \<lparr>bid_price = 1, ask_price = 6 / 5\<rparr>, strike_price = Some 105\<rparr>),
      (''BP250815P00100000'', \<lparr>latest_quote = Some \<lparr>bid_price = 2, ask_price = 21 / 10\<rparr>, strike_price = Some 100\<rparr>),
      (''BP250815C00110000'', \<lparr>latest_quote = Some \<lparr>bid_price = 1 / 2, ask_price = 3 / 5\<rparr>, strike_price = Some 110\<rparr>),
      (''BP250919C00105000'', \<lparr>latest_quote = Some \<lparr>bid_price = 3, ask_price = 16 / 5\<rparr>, strike_price = Some 105\<rparr>)]"

definition example_rows :: "row list" where
  "example_rows =
     [\<lparr>symbol = ''BP250919C00100000'', strike = 100, expiration = (2025, 9, 19), bid = 5, ask = 26 / 5\<rparr>,
      \<lparr>symbol = ''BP250815C00095000'', strike = 95, expiration = (2025, 8, 15), bid = 8, ask = 41 / 5\<rparr>,
      \<lparr>symbol = ''BP250815C00100000'', strike = 100, expiration = (2025, 8, 15), bid = 3, ask = 16 / 5\<rparr>,
      \<lparr>symbol = ''BP250808C00100000'', strike = 100, expiration = (2025, 8, 8), bid = 2, ask = 11 / 5\<rparr>,
      \<lparr>symbol = ''BP250815C00105000'', strike = 105, expiration = (2025, 8, 15), bid = 1, ask = 6 / 5\<rparr>,
      \<lparr>symbol = ''BP250815C00110000'', strike = 110, expiration = (2025, 8, 15), bid = 1 / 2, ask = 3 / 5\<rparr>,
      \<lparr>symbol = ''BP250919C00105000'', strike = 105, expiration = (2025, 9, 19), bid = 3, ask = 16 / 5\<rparr>]"

definition example_base_rows :: "base_row list" where
  "example_base_rows =
     [\<lparr>symbol = ''BP250919C00100000'', strike = 100, expiration = (2025, 9, 19)\<rparr>,
      \<lparr>symbol = ''BP250815C00095000'', strike = 95, expiration = (2025, 8, 15)\<rparr>,
      \<lparr>symbol = ''BP250815C00100000'', strike = 100, expiration = (2025, 8, 15)\<rparr>,
      \<lparr>symbol = ''BP250808C00100000'', strike = 100, expiration = (2025, 8, 8)\<rparr>,
      \<lparr>symbol = ''BP250815C00105000'', strike = 105, expiration = (2025, 8, 15)\<rparr>,
      \<lparr>symbol = ''BP250815C00110000'', strike = 110, expiration = (2025, 8, 15)\<rparr>,
      \<lparr>symbol = ''BP250919C00105000'', strike = 105, expiration = (2025, 9, 19)\<rparr>]"

definition example_get_option_chain :: "chain_request \<Rightarrow> chain option" where
  "example_get_option_chain req = Some example_chain"

text \<open>A chain request that raises.\<close>

definition example_failed_fetch :: "chain_request \<Rightarrow> chain option" where
  "example_failed_fetch req = None"


definition example_ladder :: "row list" where
  "example_ladder =
     [\<lparr>symbol = ''BP250815C00095000'', strike = 95, expiration = (2025, 8, 15), bid = 8, ask = 41 / 5\<rparr>,
      \<lparr>symbol = ''BP250815C00100000'', strike = 100, expiration = (2025, 8, 15), bid = 3, ask = 16 / 5\<rparr>,
      \<lparr>symbol = ''BP250815C00105000'', strike = 105, expiration = (2025, 8, 15), bid = 1, ask = 6 / 5\<rparr>,
      \<lparr>symbol = ''BP250815C00110000'', strike = 110, expiration = (2025, 8, 15), bid = 1 / 2, ask = 3 / 5\<rparr>]"

text \<open>Held positions: three AMD calls of one expiration, a stock, a call of another expiration.\<close>

definition example_positions :: "position list" where
  "example_positions =
     [\<lparr>pos_symbol = ''AMD250815C00175000'', asset_class = ''us_option'', pos_side = ''short''\<rparr>,
      \<lparr>pos_symbol = ''AMD'', asset_class = ''us_equity'', pos_side = ''long''\<rparr>,
      \<lparr>pos_symbol = ''AMD250815C00172500'', asset_class = ''us_option'', pos_side = ''long''\<rparr>,
      \<lparr>pos_symbol = ''AMD250815C00180000'', asset_class = ''us_option'', pos_side = ''short''\<rparr>,
      \<lparr>pos_symbol = ''AMD250919C00172500'', asset_class = ''us_option'', pos_side = ''long''\<rparr>]"

text \<open>Two AMD puts of one expiration, the lower strike held long, the higher held short.\<close>

definition example_put_positions :: "position list" where
  "example_put_positions =
     [\<lparr>pos_symbol = ''AMD250815P00172500'', asset_class = ''us_option'', pos_side = ''long''\<rparr>,
      \<lparr>pos_symbol = ''AMD250815P00175000'', asset_class = ''us_option'', pos_side = ''short''\<rparr>]"

text \<open>
  The two series are aligned when they have one entry per sample, \<open>None\<close> at the
  indices 0 to 8 and from index 9 on the mean of the ten prices up to that index.
\<close>

definition ma_aligned :: "tracker \<Rightarrow> bool" where
  "ma_aligned st \<longleftrightarrow>
     length (ma_values st) = length (spread_prices st) \<and>
     (\<forall>i < length (spread_prices st).
        ma_values st ! i =
          (if i < MA_PERIOD - 1 then None
           else Some (sum_list (take MA_PERIOD (drop (i + 1 - MA_PERIOD) (spread_prices st)))
                      / of_nat MA_PERIOD)))"


section \<open>Lemmas about the Python primitives\<close>

lemma digit_val_simps:
  "digit_val CHR ''0'' = 0" "digit_val CHR ''1'' = 1" "digit_val CHR ''2'' = 2"
  "digit_val CHR ''3'' = 3" "digit_val CHR ''4'' = 4" "digit_val CHR ''5'' = 5"
  "digit_val CHR ''6'' = 6" "digit_val CHR ''7'' = 7" "digit_val CHR ''8'' = 8"
  "digit_val CHR ''9'' = 9"
  by (simp_all add: digit_val_def)

lemma digit_not_space: "is_digit c \<Longrightarrow> \<not> is_space c"
  by (auto simp: is_digit_def is_space_def)

lemma digit_not_upper: "is_digit c \<Longrightarrow> \<not> is_upper c"
  by (auto simp: is_digit_def is_upper_def)

lemma digit_not_sign: "is_digit c \<Longrightarrow> c \<noteq> CHR ''-'' \<and> c \<noteq> CHR ''+'' \<and> c \<noteq> CHR ''_''"
  by (auto simp: is_digit_def)

lemma int_body_ok_digits: "s \<noteq> [] \<Longrightarrow> list_all is_digit s \<Longrightarrow> int_body_ok s"
  by (induction s rule: int_body_ok.induct) (auto simp: digit_not_sign)

lemma strip_digits:
  assumes "s \<noteq> []" "list_all is_digit s"
  shows "strip s = s"
proof -
  have h: "\<not> is_space (hd s)"
    using assms by (cases s) (auto simp: digit_not_space)
  have l: "\<not> is_space (last s)"
    using assms by (metis digit_not_space last_in_set list_all_iff)
  have lead: "dropWhile is_space s = s"
    using assms h by (cases s) auto
  have trail: "dropWhile is_space (rev s) = rev s"
    using assms l by (cases "rev s") (auto simp: hd_rev [symmetric] dest: arg_cong [where f = hd])
  show ?thesis
    by (simp add: strip_def lead trail)
qed

text \<open>On a run of digits \<open>int\<close> succeeds and gives its decimal value.\<close>

lemma py_int_digits:
  assumes "s \<noteq> []" "list_all is_digit s"
  shows "py_int s = Some (int (dec_value 0 s))"
proof -
  have h: "hd s \<noteq> CHR ''-''" "hd s \<noteq> CHR ''+''"
    using assms by (cases s; auto simp: digit_not_sign)+
  have f: "filter (\<lambda>c. c \<noteq> CHR ''_'') s = s"
    using assms(2) by (induction s) (auto simp: digit_not_sign)
  show ?thesis
    using assms h by (simp add: py_int_def strip_digits int_body_ok_digits f)
qed

lemma month_digits:
  assumes "1 \<le> m" "m \<le> 12"
  shows "\<exists>ys. match_month (two_digits m @ r) = (m, r) # ys"
proof -
  have "list_all (\<lambda>m. \<exists>ys. match_month (two_digits m @ r) = (m, r) # ys)
          [1, 2, 3, 4, 5, 6, 7, 8, 9, 10, 11, 12]"
    by (simp add: two_digits_def digit_char_def digit_val_simps)
  moreover have "m \<in> set [1, 2, 3, 4, 5, 6, 7, 8, 9, 10, 11, 12]"
    using assms by (simp; arith)
  ultimately show ?thesis
    unfolding list_all_iff by blast
qed

lemma day_digits:
  assumes "1 \<le> d" "d \<le> 31"
  shows "\<exists>ys. match_day (two_digits d @ r) = (d, r) # ys"
proof -
  have "list_all (\<lambda>d. \<exists>ys. match_day (two_digits d @ r) = (d, r) # ys)
          [1, 2, 3, 4, 5, 6, 7, 8, 9, 10, 11, 12, 13, 14, 15, 16, 17, 18, 19, 20,
           21, 22, 23, 24, 25, 26, 27, 28, 29, 30, 31]"
    by (simp add: two_digits_def digit_char_def digit_val_simps is_digit_def)
  moreover have "d \<in> set [1, 2, 3, 4, 5, 6, 7, 8, 9, 10, 11, 12, 13, 14, 15, 16, 17, 18, 19, 20,
           21, 22, 23, 24, 25, 26, 27, 28, 29, 30, 31]"
    using assms by (simp; arith)
  ultimately show ?thesis
    unfolding list_all_iff by blast
qed

lemma digit_char_digit:
  assumes "n < 10"
  shows "is_digit (digit_char n) \<and> digit_val (digit_char n) = n"
proof -
  have "list_all (\<lambda>n. is_digit (digit_char n) \<and> digit_val (digit_char n) = n)
          [0, 1, 2, 3, 4, 5, 6, 7, 8, 9]"
    by (simp add: digit_char_def digit_val_simps is_digit_def)
  moreover have "n \<in> set [0, 1, 2, 3, 4, 5, 6, 7, 8, 9]"
    using assms by (simp; arith)
  ultimately show ?thesis
    unfolding list_all_iff by blast
qed

lemma two_digits_ok:
  assumes "n < 100"
  shows "list_all is_digit (two_digits n)" "length (two_digits n) = 2"
    "10 * digit_val (digit_char (n div 10)) + digit_val (digit_char (n mod 10)) = n"
proof -
  have "n div 10 < 10" "n mod 10 < 10"
    using assms by auto
  then have "is_digit (digit_char (n div 10)) \<and> digit_val (digit_char (n div 10)) = n div 10"
    "is_digit (digit_char (n mod 10)) \<and> digit_val (digit_char (n mod 10)) = n mod 10"
    by (simp_all add: digit_char_digit)
  then show "list_all is_digit (two_digits n)" "length (two_digits n) = 2"
    "10 * digit_val (digit_char (n div 10)) + digit_val (digit_char (n mod 10)) = n"
    by (simp_all add: two_digits_def)
qed

lemma days_in_month_le: "days_in_month y m \<le> 31"
  by (simp add: days_in_month_def)

text \<open>\<open>strptime\<close> reads back every existing date written as six digits.\<close>

lemma strptime_yymmdd:
  assumes "yy < 100" "valid_date (century yy, mm, dd)"
  shows "strptime_ymd (yymmdd yy mm dd) = Some (century yy, mm, dd)"
proof -
  from assms(2) have m: "1 \<le> mm" "mm \<le> 12" and d: "1 \<le> dd" "dd \<le> 31"
    using days_in_month_le [of "century yy" mm] by (auto simp: valid_date_def)
  obtain ys where ys: "match_month (two_digits mm @ two_digits dd) = (mm, two_digits dd) # ys"
    using month_digits [OF m] by blast
  obtain zs where zs: "match_day (two_digits dd) = (dd, []) # zs"
    using day_digits [OF d, of "[]"] by auto
  show ?thesis
    using two_digits_ok [OF assms(1)] assms(2) ys zs
    by (simp add: strptime_ymd_def yymmdd_def two_digits_def [of yy])
qed

lemma yymmdd_digits:
  assumes "yy < 100" "mm < 100" "dd < 100"
  shows "length (yymmdd yy mm dd) = 6" "list_all is_digit (yymmdd yy mm dd)"
  using two_digits_ok(1,2) [OF assms(1)] two_digits_ok(1,2) [OF assms(2)]
    two_digits_ok(1,2) [OF assms(3)]
  by (simp_all add: yymmdd_def)

section \<open>The codec on well-formed symbols\<close>

lemma takeWhile_ticker:
  assumes "list_all is_upper u" "r \<noteq> []" "is_digit (hd r)"
  shows "takeWhile is_upper (u @ r) = u" "dropWhile is_upper (u @ r) = r"
proof -
  have "\<not> is_upper (hd r)"
    using assms(3) by (rule digit_not_upper)
  then have "takeWhile is_upper r = []" "dropWhile is_upper r = r"
    using assms(2) by (cases r; simp)+
  moreover have "\<forall>x\<in>set u. is_upper x"
    using assms(1) by (simp add: list_all_iff)
  ultimately show "takeWhile is_upper (u @ r) = u" "dropWhile is_upper (u @ r) = r"
    by (simp_all add: takeWhile_append2 dropWhile_append2)
qed

lemma parse_option_symbol_synth:
  assumes "u \<noteq> []" "list_all is_upper u" "length d = 6" "list_all is_digit d"
    "t = CHR ''C'' \<or> t = CHR ''P''" "length s = 8" "list_all is_digit s"
  shows "parse_option_symbol (u @ d @ [t] @ s) = Some (u, d, t, of_nat (dec_value 0 s) / 1000)"
proof -
  have d: "d \<noteq> []" "is_digit (hd d)"
    using assms(3,4) by (cases d; simp)+
  have s: "s \<noteq> []"
    using assms(6) by auto
  have cut: "takeWhile is_upper (u @ d @ [t] @ s) = u"
    "dropWhile is_upper (u @ d @ [t] @ s) = d @ [t] @ s"
    using takeWhile_ticker [OF assms(2), of "d @ [t] @ s"] d by simp_all
  show ?thesis
    unfolding parse_option_symbol_def cut Let_def
    using assms py_int_digits [OF s assms(7)] by auto
qed

lemma parse_strike_synth:
  assumes "length d = 6" "length s = 8" "list_all is_digit s"
  shows "parse_strike (u @ d @ [t] @ s) =
           (if t = CHR ''C'' then Some (of_nat (dec_value 0 s) / 1000) else None)"
proof -
  have s: "s \<noteq> []"
    using assms(2) by auto
  have n: "(u @ d @ [t] @ s) ! (length (u @ d @ [t] @ s) - 9) = t"
    using assms(1,2) by (simp add: nth_append)
  have dr: "drop (length (u @ d @ [t] @ s) - 8) (u @ d @ [t] @ s) = s"
    using assms(1,2) by simp
  show ?thesis
    unfolding parse_strike_def n dr using assms(1,2) py_int_digits [OF s assms(3)] by simp
qed

lemma parse_expiration_synth:
  assumes "length u = 2" "length d = 6" "length s = 8"
  shows "parse_expiration (u @ d @ [t] @ s) = strptime_ymd d"
  using assms by (simp add: parse_expiration_def)

text \<open>
  C1 (amended). For a symbol made of a ticker of one or more capital letters, an existing
  date as six digits YYMMDD, a type character C or P and eight strike digits:
  \<open>parse_option_symbol\<close> gives back exactly the ticker, the six date digits, the type and
  the strike, the strike being the decimal value of the last eight characters divided by
  1000; \<open>parse_strike\<close> gives that strike when the type is C (it rejects every other
  type); \<open>parse_expiration\<close>, which reads the characters 2 to 7, gives the date when
  the ticker has two letters.
\<close>

theorem decode_synthesized_symbol:
  assumes "u \<noteq> []" "list_all is_upper u" "yy < 100" "valid_date (century yy, mm, dd)"
    "t = CHR ''C'' \<or> t = CHR ''P''" "length s = 8" "list_all is_digit s"
  shows "parse_option_symbol (u @ yymmdd yy mm dd @ [t] @ s) =
           Some (u, yymmdd yy mm dd, t, of_nat (dec_value 0 s) / 1000) \<and>
         (t = CHR ''C'' \<longrightarrow>
            parse_strike (u @ yymmdd yy mm dd @ [t] @ s) = Some (of_nat (dec_value 0 s) / 1000)) \<and>
         (length u = 2 \<longrightarrow>
            parse_expiration (u @ yymmdd yy mm dd @ [t] @ s) = Some (century yy, mm, dd))"
proof -
  from assms(4) have "mm \<le> 12" "dd \<le> 31"
    using days_in_month_le [of "century yy" mm] by (auto simp: valid_date_def)
  then have six: "length (yymmdd yy mm dd) = 6" "list_all is_digit (yymmdd yy mm dd)"
    using yymmdd_digits [of yy mm dd] assms(3) by simp_all
  have "parse_option_symbol (u @ yymmdd yy mm dd @ [t] @ s) =
          Some (u, yymmdd yy mm dd, t, of_nat (dec_value 0 s) / 1000)"
    using assms six by (intro parse_option_symbol_synth)
  moreover have "t = CHR ''C'' \<longrightarrow>
      parse_strike (u @ yymmdd yy mm dd @ [t] @ s) = Some (of_nat (dec_value 0 s) / 1000)"
    using parse_strike_synth [OF six(1) assms(6,7)] by simp
  moreover have "length u = 2 \<longrightarrow>
      parse_expiration (u @ yymmdd yy mm dd @ [t] @ s) = Some (century yy, mm, dd)"
    using parse_expiration_synth [OF _ six(1) assms(6)] strptime_yymmdd [OF assms(3,4)] by simp
  ultimately show ?thesis
    by blast
qed

theorem decode_synthesized_symbol_witness:
  "parse_option_symbol ''BP250815C00030000'' = Some (''BP'', ''250815'', CHR ''C'', 30) \<and>
   parse_strike ''BP250815C00030000'' = Some 30 \<and>
   parse_expiration ''BP250815C00030000'' = Some (2025, 8, 15)"
  using decode_synthesized_symbol [of "''BP''" 25 8 15 "CHR ''C''" "''00030000''"]
  by (simp add: yymmdd_def two_digits_def digit_char_def is_upper_def is_digit_def century_def
      valid_date_def days_in_month_def digit_val_simps)

text \<open>
  C1 as stated fails: \<open>parse_expiration\<close> does not find the date after a three-letter
  ticker, and \<open>parse_strike\<close> does not decode a put.
\<close>

theorem decode_counterexample:
  "parse_expiration ''AMD250815C00172500'' = None \<and> parse_strike ''BP250815P00030000'' = None"
  by (simp add: parse_expiration_def strptime_ymd_def is_digit_def parse_strike_def)

section \<open>Closing a spread (test_sell_2leg_option.py)\<close>

lemma floor_rat_numeral_div [simp]:
  "\<lfloor>numeral a / numeral b :: rat\<rfloor> = numeral a div numeral b"
  by (metis floor_divide_of_int_eq of_int_numeral)

lemma floor_rat_minus_numeral_div [simp]:
  "\<lfloor>- (numeral a / numeral b) :: rat\<rfloor> = - numeral a div numeral b"
  by (metis divide_minus_left floor_divide_of_int_eq of_int_neg_numeral of_int_numeral)



lemma py_round2_cents: "py_round2 (of_int n / 100) = of_int n / 100"
  by (simp add: py_round2_def round_half_even_def)




text \<open>
  C10. With both quotes present and a minimum credit greater than 0, the credit used is
  the maximum of the rounded midpoint difference and the minimum, it is positive, and
  \<open>close_mleg_spread\<close> posts the order: the branch "Invalid net credit for closing" is
  not taken, however negative the computed credit.
\<close>

theorem positive_floor_never_rejected:
  assumes "0 < min_credit" "get_option_quote long_symbol = Some long_quote"
    "get_option_quote short_symbol = Some short_quote"
  shows "0 < net_credit long_quote short_quote min_credit \<and>
         net_credit long_quote short_quote min_credit =
           max (py_round2 ((bp long_quote + ap long_quote) / 2 - (bp short_quote + ap short_quote) / 2))
               min_credit \<and>
         close_mleg_spread get_option_quote long_symbol short_symbol q min_credit =
           Inr \<lparr>payload_qty = q,
                payload_limit_price =
                  max (py_round2 ((bp long_quote + ap long_quote) / 2 - (bp short_quote + ap short_quote) / 2))
                      min_credit,
                payload_side = Some SELL,
                payload_legs =
                  [\<lparr>mleg_symbol = long_symbol, mleg_ratio_qty = 1, mleg_side = SELL,
                    position_intent = ''sell_to_close''\<rparr>,
                   \<lparr>mleg_symbol = short_symbol, mleg_ratio_qty = 1, mleg_side = BUY,
                    position_intent = ''buy_to_close''\<rparr>]\<rparr>"
proof -
  have eq: "net_credit long_quote short_quote min_credit =
      max (py_round2 ((bp long_quote + ap long_quote) / 2 - (bp short_quote + ap short_quote) / 2))
          min_credit"
    using assms(1) by (simp add: net_credit_def Let_def)
  moreover have pos: "0 < net_credit long_quote short_quote min_credit"
    unfolding eq using assms(1) by (simp add: less_max_iff_disj)
  ultimately show ?thesis
    using assms by (simp add: close_mleg_spread_def Let_def)
qed

theorem positive_floor_never_rejected_witness:
  "py_round2 ((1 + 6 / 5) / 2 - (3 + 16 / 5) / 2) = - 2 \<and>
   close_mleg_spread example_quotes ''BP250815C00032500'' ''BP250815C00030000'' 1 (1 / 4) =
     Inr \<lparr>payload_qty = 1, payload_limit_price = 1 / 4, payload_side = Some SELL,
          payload_legs =
            [\<lparr>mleg_symbol = ''BP250815C00032500'', mleg_ratio_qty = 1, mleg_side = SELL,
              position_intent = ''sell_to_close''\<rparr>,
             \<lparr>mleg_symbol = ''BP250815C00030000'', mleg_ratio_qty = 1, mleg_side = BUY,
              position_intent = ''buy_to_close''\<rparr>]\<rparr>"
  using positive_floor_never_rejected [of "1 / 4" example_quotes "''BP250815C00032500''"
      "\<lparr>ap = 6 / 5, bp = 1\<rparr>" "''BP250815C00030000''" "\<lparr>ap = 16 / 5, bp = 3\<rparr>" 1]
  by (simp add: example_quotes_def py_round2_def round_half_even_def)

section \<open>The expiration check before an order\<close>

text \<open>
  C2 (amended). In \<open>main\<close> of Alpaca_SDK_Options_Functionality_test.py the expiration of
  each leg is decoded again from its symbol by \<open>parse_expiration\<close> before the order
  request is built: whenever the two results differ no order is submitted, and when the
  snapshots of both legs were retrieved the run ends with the message "Mismatched
  expirations". The REST script's \<open>place_spread_order\<close> has no such check.
\<close>

theorem expiration_gate_before_submit:
  assumes "parse_expiration long_contract \<noteq> parse_expiration short_contract"
  shows "(\<forall>order. main_submit long_contract short_contract spread_cost get_option_snapshot
            \<noteq> Inr order) \<and>
         (\<forall>snapshots long_data short_data.
            get_option_snapshot [long_contract, short_contract] = Some snapshots \<and>
            map_of snapshots long_contract = Some long_data \<and>
            map_of snapshots short_contract = Some short_data \<longrightarrow>
            main_submit long_contract short_contract spread_cost get_option_snapshot
              = Inl ExpirationMismatch)"
  using assms
  by (auto simp: main_submit_def split: option.splits list.splits)

theorem expiration_gate_before_submit_witness:
  "parse_expiration ''BP250815C00030000'' \<noteq> parse_expiration ''BP250919C00032500'' \<and>
   main_submit ''BP250815C00030000'' ''BP250919C00032500'' 220 example_snapshots
     = Inl ExpirationMismatch"
proof -
  have differ: "parse_expiration ''BP250815C00030000'' \<noteq> parse_expiration ''BP250919C00032500''"
    by (simp add: parse_expiration_def strptime_ymd_def is_digit_def digit_val_simps
        century_def valid_date_def days_in_month_def)
  show ?thesis
    using differ expiration_gate_before_submit [OF differ, of 220 example_snapshots]
    by (simp add: example_snapshots_def)
qed

text \<open>
  C2 as stated fails: \<open>place_spread_order\<close> posts the order for two legs whose symbols
  decode to different expiration dates.
\<close>

theorem expiration_gate_counterexample:
  "parse_expiration ''BP250815C00030000'' = Some (2025, 8, 15) \<and>
   parse_expiration ''BP250919C00032500'' = Some (2025, 9, 19) \<and>
   place_spread_order example_contracts_mixed example_quotes ''BP'' 30 (65 / 2) ''2025-08-15'' ''call'' =
     Inr \<lparr>payload_qty = 1, payload_limit_price = 11 / 5, payload_side = None,
          payload_legs =
            [\<lparr>mleg_symbol = ''BP250815C00030000'', mleg_ratio_qty = 1, mleg_side = BUY,
              position_intent = ''buy_to_open''\<rparr>,
             \<lparr>mleg_symbol = ''BP250919C00032500'', mleg_ratio_qty = 1, mleg_side = SELL,
              position_intent = ''sell_to_open''\<rparr>]\<rparr>"
  by (simp add: parse_expiration_def strptime_ymd_def is_digit_def digit_val_simps
      century_def valid_date_def days_in_month_def place_spread_order_def
      get_option_contracts_def example_contracts_mixed_def example_quotes_def
      py_round2_def round_half_even_def)

section \<open>Data frame lemmas\<close>






lemma find_map_comp: "find P (map f xs) = map_option f (find (\<lambda>x. P (f x)) xs)"
  by (induction xs) auto

lemma find_sorted_least:
  assumes "sorted ks" "distinct ks" "find Q ks = Some k"
  shows "Q k \<and> k \<in> set ks \<and> (\<forall>k'\<in>set ks. k' < k \<longrightarrow> \<not> Q k')"
  using assms
proof (induction ks)
  case Nil
  then show ?case by simp
next
  case (Cons a ks)
  show ?case
  proof (cases "Q a")
    case True
    then have "k = a" using Cons.prems by simp
    then show ?thesis using True Cons.prems by auto
  next
    case False
    then have "find Q ks = Some k" using Cons.prems by simp
    then have "Q k \<and> k \<in> set ks \<and> (\<forall>k'\<in>set ks. k' < k \<longrightarrow> \<not> Q k')"
      using Cons.IH Cons.prems by simp
    then show ?thesis using False by auto
  qed
qed

lemma set_sort_values: "set (sort_values col df) = set df"
  by (simp add: sort_values_def)

lemma length_filter_sort_values:
  "length (filter P (sort_values col df)) = length (filter P df)"
  by (simp add: sort_values_def filter_sort)

lemma soonest_exp_unfold:
  "soonest_exp col df =
     map_option (\<lambda>k. (k, filter (\<lambda>r. col r = k) (sort_values col df)))
       (find (\<lambda>k. 2 \<le> length (filter (\<lambda>r. col r = k) df))
          (sorted_list_of_set (col ` set df)))"
  by (simp add: soonest_exp_def groupby_def find_map_comp length_filter_sort_values
      set_sort_values)

lemma filter_absent_key:
  assumes "e \<notin> col ` set df"
  shows "length (filter (\<lambda>r. col r = e) df) < 2"
proof -
  have "filter (\<lambda>r. col r = e) df = []"
    using assms by (auto simp: filter_empty_conv)
  then show ?thesis by simp
qed

lemma soonest_exp_None:
  "soonest_exp col df = None \<longleftrightarrow> (\<forall>e. length (filter (\<lambda>r. col r = e) df) < 2)"
proof
  assume "soonest_exp col df = None"
  then have none: "\<And>k. k \<in> col ` set df \<Longrightarrow> \<not> 2 \<le> length (filter (\<lambda>r. col r = k) df)"
    unfolding soonest_exp_unfold by (auto simp: find_None_iff)
  show "\<forall>e. length (filter (\<lambda>r. col r = e) df) < 2"
  proof
    fix e
    show "length (filter (\<lambda>r. col r = e) df) < 2"
      using none [of e] filter_absent_key [of e col df] by (cases "e \<in> col ` set df") simp_all
  qed
next
  assume "\<forall>e. length (filter (\<lambda>r. col r = e) df) < 2"
  then have "\<And>k. \<not> 2 \<le> length (filter (\<lambda>r. col r = k) df)"
    by (meson not_le)
  then show "soonest_exp col df = None"
    unfolding soonest_exp_unfold by (simp add: find_None_iff)
qed

lemma soonest_exp_Some:
  assumes "soonest_exp col df = Some (e, g)"
  shows "g = filter (\<lambda>r. col r = e) (sort_values col df)"
    and "2 \<le> length (filter (\<lambda>r. col r = e) df)"
    and "\<And>e'. e' < e \<Longrightarrow> length (filter (\<lambda>r. col r = e') df) < 2"
proof -
  let ?Q = "\<lambda>k. 2 \<le> length (filter (\<lambda>r. col r = k) df)"
  let ?ks = "sorted_list_of_set (col ` set df)"
  from assms have f: "find ?Q ?ks = Some e" and g: "g = filter (\<lambda>r. col r = e) (sort_values col df)"
    unfolding soonest_exp_unfold by auto
  have least: "?Q e \<and> e \<in> set ?ks \<and> (\<forall>k'\<in>set ?ks. k' < e \<longrightarrow> \<not> ?Q k')"
    by (rule find_sorted_least [OF _ _ f]) simp_all
  show "g = filter (\<lambda>r. col r = e) (sort_values col df)" by (rule g)
  show "2 \<le> length (filter (\<lambda>r. col r = e) df)" using least by simp
  show "length (filter (\<lambda>r. col r = e') df) < 2" if "e' < e" for e'
  proof (cases "e' \<in> col ` set df")
    case True
    then show ?thesis using least that by (auto simp: not_le)
  next
    case False
    then show ?thesis by (rule filter_absent_key)
  qed
qed

lemma soonest_exp_subset:
  assumes "soonest_exp col df = Some (e, g)"
  shows "set g \<subseteq> set df" "2 \<le> length g" "\<And>r. r \<in> set g \<Longrightarrow> col r = e"
  using soonest_exp_Some(1,2) [OF assms]
  by (auto simp: set_sort_values length_filter_sort_values)

section \<open>Rows come from the chain\<close>


lemma find_closest_bull_spread_rows:
  assumes "chain_rows items = Inr df" "df \<noteq> []"
  shows "find_closest_bull_spread stock_price (Some items) strike_spread =
           (case soonest_exp expiration df of
              None \<Rightarrow> Inl NoEligibleExpiration
            | Some (soonest, df_group) \<Rightarrow>
                (case select_strikes stock_price strike_spread df_group of
                   Inl e \<Rightarrow> Inl e
                 | Inr (long_strike, short_strike) \<Rightarrow>
                     Inr (symbol long_strike, symbol short_strike,
                          (ask long_strike - bid short_strike) * 100)))"
proof -
  have "items \<noteq> []" using assms by auto
  then show ?thesis
    using assms by (cases items; cases df) (simp_all add: find_closest_bull_spread_def)
qed


lemma fallback_strikes_rows:
  assumes "chain_base_rows items = df" "df \<noteq> []"
  shows "fallback_strikes (Some items) =
           (case soonest_exp expiration df of
              None \<Rightarrow> Inl NoEligibleExpiration
            | Some (soonest, df_group) \<Rightarrow>
                Inr (soonest, sorted_list_of_set (set (map strike df_group))))"
  using assms by (cases items; cases df) (auto simp: fallback_strikes_def)

section \<open>Examples evaluated\<close>

lemmas codec_eval =
  parse_strike_def parse_expiration_def py_int_def strip_def is_space_def is_digit_def
  strptime_ymd_def digit_val_simps century_def valid_date_def days_in_month_def is_leap_def

lemma example_chain_rows: "chain_rows example_chain = Inr example_rows"
  by (simp add: example_chain_def example_rows_def codec_eval)

lemma example_soonest: "soonest_exp expiration example_rows = Some ((2025, 8, 15), example_ladder)"
  by (simp add: soonest_exp_def groupby_def sort_values_def example_rows_def example_ladder_def
      sorted_list_of_set_sort_remdups)

lemma example_select:
  "select_strikes 100 (15 / 2) example_ladder =
     Inr (\<lparr>symbol = ''BP250815C00100000'', strike = 100, expiration = (2025, 8, 15), bid = 3, ask = 16 / 5\<rparr>,
          \<lparr>symbol = ''BP250815C00110000'', strike = 110, expiration = (2025, 8, 15), bid = 1 / 2, ask = 3 / 5\<rparr>)"
  by (simp add: select_strikes_def argmin_row_def example_ladder_def)

section \<open>Width selection\<close>




section \<open>Soonest expiration\<close>

text \<open>
  C7. The rows are sorted by expiration and grouped by it; the groups are visited in
  ascending order of expiration and the first with at least two rows is taken, so every
  sooner expiration has fewer than two rows; when no expiration has two rows the result
  is "No expiration found with enough contracts" (\<open>NoEligibleExpiration\<close>). Both
  \<open>find_closest_bull_spread\<close> and the fall-back of \<open>find_initial_spread\<close> select this way.
\<close>

theorem soonest_expiration_with_two_contracts:
  "(soonest_exp col df = None \<longleftrightarrow> (\<forall>e. length (filter (\<lambda>r. col r = e) df) < 2)) \<and>
   (\<forall>e g. soonest_exp col df = Some (e, g) \<longrightarrow>
      g = filter (\<lambda>r. col r = e) (sort_values col df) \<and> 2 \<le> length g \<and>
      (\<forall>e'<e. length (filter (\<lambda>r. col r = e') df) < 2)) \<and>
   (chain_rows items = Inr rows \<and> rows \<noteq> [] \<longrightarrow>
      find_closest_bull_spread stock_price (Some items) strike_spread =
        (case soonest_exp expiration rows of
           None \<Rightarrow> Inl NoEligibleExpiration
         | Some (soonest, df_group) \<Rightarrow>
             (case select_strikes stock_price strike_spread df_group of
                Inl e \<Rightarrow> Inl e
              | Inr (long_strike, short_strike) \<Rightarrow>
                  Inr (symbol long_strike, symbol short_strike,
                       (ask long_strike - bid short_strike) * 100)))) \<and>
   (chain_base_rows items' = brows \<and> brows \<noteq> [] \<longrightarrow>
      fallback_strikes (Some items') =
        (case soonest_exp expiration brows of
           None \<Rightarrow> Inl NoEligibleExpiration
         | Some (soonest, df_group) \<Rightarrow>
             Inr (soonest, sorted_list_of_set (set (map strike df_group)))))"
proof -
  have "soonest_exp col df = Some (e, g) \<longrightarrow>
      g = filter (\<lambda>r. col r = e) (sort_values col df) \<and> 2 \<le> length g \<and>
      (\<forall>e'<e. length (filter (\<lambda>r. col r = e') df) < 2)" for e g
    using soonest_exp_Some [of col df e g] soonest_exp_subset(2) [of col df e g] by blast
  moreover have "chain_base_rows items' = brows \<and> brows \<noteq> [] \<longrightarrow>
      fallback_strikes (Some items') =
        (case soonest_exp expiration brows of
           None \<Rightarrow> Inl NoEligibleExpiration
         | Some (soonest, df_group) \<Rightarrow>
             Inr (soonest, sorted_list_of_set (set (map strike df_group))))"
    using fallback_strikes_rows [of items' brows] by blast
  ultimately show ?thesis
    using soonest_exp_None [of col df] find_closest_bull_spread_rows [of items rows]
    by blast
qed

lemma example_chain_base_rows: "chain_base_rows example_chain = example_base_rows"
  by (simp add: example_chain_def example_base_rows_def codec_eval)

lemma example_base_soonest:
  "soonest_exp expiration example_base_rows =
     Some ((2025, 8, 15),
       [\<lparr>symbol = ''BP250815C00095000'', strike = 95, expiration = (2025, 8, 15)\<rparr>,
        \<lparr>symbol = ''BP250815C00100000'', strike = 100, expiration = (2025, 8, 15)\<rparr>,
        \<lparr>symbol = ''BP250815C00105000'', strike = 105, expiration = (2025, 8, 15)\<rparr>,
        \<lparr>symbol = ''BP250815C00110000'', strike = 110, expiration = (2025, 8, 15)\<rparr>])"
  by (simp add: soonest_exp_def groupby_def sort_values_def example_base_rows_def
      sorted_list_of_set_sort_remdups)

theorem soonest_expiration_with_two_contracts_witness:
  "length (filter (\<lambda>r. expiration r = (2025, 8, 8)) example_rows) < 2 \<and>
   soonest_exp expiration example_rows = Some ((2025, 8, 15), example_ladder) \<and>
   find_closest_bull_spread 100 (Some example_chain) (5 / 2) =
     Inr (''BP250815C00100000'', ''BP250815C00105000'', 220) \<and>
   fallback_strikes (Some example_chain) = Inr ((2025, 8, 15), [95, 100, 105, 110])"
  using soonest_expiration_with_two_contracts [of expiration example_rows example_chain example_rows
      100 "5 / 2" example_chain example_base_rows]
    example_chain_rows example_soonest example_chain_base_rows example_base_soonest
  by (simp add: select_strikes_def argmin_row_def example_ladder_def example_rows_def
      example_base_rows_def sorted_list_of_set_sort_remdups)

section \<open>Debit pricing\<close>












section \<open>Strike ladders\<close>

lemma parse_strike_not_call:
  "key ! (length key - 9) \<noteq> CHR ''C'' \<Longrightarrow> parse_strike key = None"
  by (simp add: parse_strike_def)

lemma set_map_filter_Some: "set (List.map_filter f xs) = {y. \<exists>x\<in>set xs. f x = Some y}"
  by (induction xs) (auto simp: List.map_filter_simps split: option.splits)

lemma get_strikes_sort:
  "get_strikes get_option_chain symbol' expiration' option_type strike_min strike_max =
     (case get_option_chain (symbol', option_type, expiration', strike_min, strike_max) of
        None \<Rightarrow> []
      | Some chain \<Rightarrow> sort (remdups (List.map_filter parse_strike (map fst chain))))"
  by (simp add: get_strikes_def sorted_list_of_set_sort_remdups split: option.splits)

lemma example_get_strikes:
  "get_strikes example_get_option_chain ''BP'' ''2025-08-15'' option_type 90 110 = [95, 100, 105, 110]"
  by (simp add: get_strikes_sort example_get_option_chain_def example_chain_def codec_eval)

lemma example_fallback_strikes:
  "fallback_strikes (Some example_chain) = Inr ((2025, 8, 15), [95, 100, 105, 110])"
proof -
  have strikes: "sorted_list_of_set (set (map strike
      [\<lparr>symbol = ''BP250815C00095000'', strike = 95, expiration = (2025, 8, 15)\<rparr>,
       \<lparr>symbol = ''BP250815C00100000'', strike = 100, expiration = (2025, 8, 15)\<rparr>,
       \<lparr>symbol = ''BP250815C00105000'', strike = 105, expiration = (2025, 8, 15)\<rparr>,
       \<lparr>symbol = ''BP250815C00110000'', strike = 110, expiration = (2025, 8, 15)\<rparr>]))
      = [95, 100, 105, 110]"
    unfolding sorted_list_of_set_sort_remdups by simp
  have "example_base_rows \<noteq> []"
    by (simp add: example_base_rows_def)
  then have "fallback_strikes (Some example_chain) =
      (case soonest_exp expiration example_base_rows of
         None \<Rightarrow> Inl NoEligibleExpiration
       | Some (soonest, df_group) \<Rightarrow>
           Inr (soonest, sorted_list_of_set (set (map strike df_group))))"
    by (rule fallback_strikes_rows [OF example_chain_base_rows])
  then show ?thesis
    unfolding example_base_soonest using strikes by simp
qed

text \<open>
  C6 (amended). The strike list that \<open>get_strikes\<close> builds (either version), and the one
  of the fall-back, is strictly increasing, so it has no duplicate. \<open>get_strikes\<close> never
  fails: a failed fetch gives the empty list, and the list holds exactly the strikes of
  the keys that \<open>parse_strike\<close> decodes. \<open>parse_strike\<close> rejects every key whose type
  character is not C, whatever \<open>option_type\<close> was asked for.
\<close>

theorem ladder_strictly_increasing:
  "sorted_wrt (<) (get_strikes get_option_chain symbol' expiration' option_type strike_min strike_max) \<and>
   sorted_wrt (<) (get_strikes_v3 get_option_chain symbol' expiration' option_type strike_min strike_max) \<and>
   (get_option_chain (symbol', option_type, expiration', strike_min, strike_max) = None \<longrightarrow>
      get_strikes get_option_chain symbol' expiration' option_type strike_min strike_max = []) \<and>
   (get_option_chain (symbol', option_type, expiration', strike_min, strike_max) = Some chain \<longrightarrow>
      set (get_strikes get_option_chain symbol' expiration' option_type strike_min strike_max) =
        {k. \<exists>key v. (key, v) \<in> set chain \<and> parse_strike key = Some k}) \<and>
   (\<forall>key. key ! (length key - 9) \<noteq> CHR ''C'' \<longrightarrow> parse_strike key = None) \<and>
   (fallback_strikes chain' = Inr (soonest, strikes) \<longrightarrow> sorted_wrt (<) strikes)"
proof -
  have a: "sorted_wrt (<) (get_strikes get_option_chain symbol' expiration' option_type strike_min strike_max)"
    by (simp add: get_strikes_def split: option.splits)
  have b: "sorted_wrt (<) (get_strikes_v3 get_option_chain symbol' expiration' option_type strike_min strike_max)"
    by (simp add: get_strikes_v3_def split: option.splits)
  have c: "get_option_chain (symbol', option_type, expiration', strike_min, strike_max) = None \<longrightarrow>
      get_strikes get_option_chain symbol' expiration' option_type strike_min strike_max = []"
    by (simp add: get_strikes_def)
  have keys: "set (List.map_filter parse_strike (map fst chain)) =
      {k. \<exists>key v. (key, v) \<in> set chain \<and> parse_strike key = Some k}"
    by (force simp: set_map_filter_Some)
  have "get_option_chain (symbol', option_type, expiration', strike_min, strike_max) = Some chain \<longrightarrow>
      set (get_strikes get_option_chain symbol' expiration' option_type strike_min strike_max) =
        set (List.map_filter parse_strike (map fst chain))"
    by (simp add: get_strikes_def)
  then have d: "get_option_chain (symbol', option_type, expiration', strike_min, strike_max) = Some chain \<longrightarrow>
      set (get_strikes get_option_chain symbol' expiration' option_type strike_min strike_max) =
        {k. \<exists>key v. (key, v) \<in> set chain \<and> parse_strike key = Some k}"
    unfolding keys .
  have e: "\<forall>key. key ! (length key - 9) \<noteq> CHR ''C'' \<longrightarrow> parse_strike key = None"
    by (simp add: parse_strike_not_call)
  have f: "fallback_strikes chain' = Inr (soonest, strikes) \<longrightarrow> sorted_wrt (<) strikes"
    by (auto simp: fallback_strikes_def split: option.splits list.splits)
  show ?thesis
    using a b c d e f by blast
qed

theorem ladder_strictly_increasing_witness:
  "parse_strike ''BP250815P00100000'' = None \<and>
   get_strikes example_get_option_chain ''BP'' ''2025-08-15'' ''call'' 90 110 = [95, 100, 105, 110] \<and>
   get_strikes example_failed_fetch ''BP'' ''2025-08-15'' ''call'' 90 110 = [] \<and>
   fallback_strikes (Some example_chain) = Inr ((2025, 8, 15), [95, 100, 105, 110])"
  using ladder_strictly_increasing [of example_get_option_chain "''BP''" "''2025-08-15''" "''call''"
      90 110 example_chain "Some example_chain" "(2025, 8, 15)" "[95, 100, 105, 110]"]
    ladder_strictly_increasing [of example_failed_fetch "''BP''" "''2025-08-15''" "''call''"
      90 110 example_chain "Some example_chain" "(2025, 8, 15)" "[95, 100, 105, 110]"]
    example_get_strikes [of "''call''"] example_fallback_strikes
  by (simp add: parse_strike_def example_failed_fetch_def)

text \<open>
  C6 as stated fails for the wanted type put: the call entries are kept and the put
  entry is skipped.
\<close>

theorem ladder_counterexample:
  "get_strikes example_get_option_chain ''BP'' ''2025-08-15'' ''put'' 90 110 = [95, 100, 105, 110] \<and>
   parse_option_symbol ''BP250815P00100000'' = Some (''BP'', ''250815'', CHR ''P'', 100) \<and>
   parse_option_symbol ''BP250815C00095000'' = Some (''BP'', ''250815'', CHR ''C'', 95)"
  using example_get_strikes [of "''put''"]
  by (simp add: codec_eval parse_option_symbol_def is_upper_def)

section \<open>Position grouping\<close>

lemma map_of_dict_append:
  "map_of (dict_append k v d) k' =
     (if k' = k then Some ((case map_of d k of None \<Rightarrow> [] | Some vs \<Rightarrow> vs) @ [v])
      else map_of d k')"
  by (induction k v d rule: dict_append.induct) auto

lemma keys_dict_append: "fst ` set (dict_append k v d) = insert k (fst ` set d)"
  by (induction k v d rule: dict_append.induct) auto

lemma distinct_dict_append:
  "distinct (map fst d) \<Longrightarrow> distinct (map fst (dict_append k v d))"
  by (induction k v d rule: dict_append.induct) (auto simp: keys_dict_append)

lemma map_of_dict_set:
  "map_of (dict_set k v d) k' = (if k' = k then Some v else map_of d k')"
  by (induction k v d rule: dict_set.induct) auto

lemma keys_dict_set: "fst ` set (dict_set k v d) = insert k (fst ` set d)"
  by (induction k v d rule: dict_set.induct) auto

text \<open>The first loop: each key holds the positions filed under it, in list order.\<close>

lemma group_fold:
  "map_of (foldl (\<lambda>groups pos. case position_key pos of
                                   Some key \<Rightarrow> dict_append key pos groups
                                 | None \<Rightarrow> groups) G ps) k =
     (case map_of G k of
        None \<Rightarrow> (if filter (\<lambda>p. position_key p = Some k) ps = [] then None
                 else Some (filter (\<lambda>p. position_key p = Some k) ps))
      | Some vs \<Rightarrow> Some (vs @ filter (\<lambda>p. position_key p = Some k) ps))"
proof (induction ps arbitrary: G)
  case Nil
  then show ?case by (simp split: option.splits)
next
  case (Cons p ps)
  show ?case
  proof (cases "position_key p")
    case None
    then show ?thesis using Cons.IH [of G] by (auto split: option.splits)
  next
    case (Some key)
    then show ?thesis
      using Cons.IH [of "dict_append key p G"]
      by (auto simp: map_of_dict_append split: option.splits)
  qed
qed

lemma group_fold_distinct:
  "distinct (map fst G) \<Longrightarrow>
   distinct (map fst (foldl (\<lambda>groups pos. case position_key pos of
                                   Some key \<Rightarrow> dict_append key pos groups
                                 | None \<Rightarrow> groups) G ps))"
proof (induction ps arbitrary: G)
  case Nil
  then show ?case by simp
next
  case (Cons p ps)
  then show ?case
    by (cases "position_key p") (simp_all add: distinct_dict_append)
qed

lemma map_of_group_positions:
  "map_of (group_positions ps) k =
     (if filter (\<lambda>p. position_key p = Some k) ps = [] then None
      else Some (filter (\<lambda>p. position_key p = Some k) ps))"
  unfolding group_positions_def by (simp add: group_fold)

lemma distinct_group_positions: "distinct (map fst (group_positions ps))"
  unfolding group_positions_def by (rule group_fold_distinct) simp

lemma position_key_Some:
  assumes "position_key p = Some (u, e, t)"
  shows "t = CHR ''C''" "length e = 6" "contains ''option'' (lower (asset_class p))"
    "parse_option_symbol (pos_symbol p) = Some (u, e, t, strike_key p)"
proof -
  from assms obtain k where p: "parse_option_symbol (pos_symbol p) = Some (u, e, t, k)"
    and t: "t = CHR ''C''" and c: "contains ''option'' (lower (asset_class p))"
    by (auto simp: position_key_def split: if_splits option.splits)
  show "t = CHR ''C''" by (rule t)
  show "contains ''option'' (lower (asset_class p))" by (rule c)
  show "parse_option_symbol (pos_symbol p) = Some (u, e, t, strike_key p)"
    using p by (simp add: strike_key_def)
  show "length e = 6"
    using p by (auto simp: parse_option_symbol_def Let_def split: if_splits option.splits)
qed

lemma group_keys_wellformed:
  assumes "((u, e, t), g) \<in> set (group_positions ps)"
  shows "t = CHR ''C''" "length e = 6"
proof -
  have "map_of (group_positions ps) (u, e, t) = Some g"
    using assms distinct_group_positions by simp
  then have "filter (\<lambda>p. position_key p = Some (u, e, t)) ps \<noteq> []"
    by (auto simp: map_of_group_positions split: if_splits)
  then obtain p where "position_key p = Some (u, e, t)"
    by (auto simp: filter_empty_conv)
  then show "t = CHR ''C''" "length e = 6"
    using position_key_Some by blast+
qed

lemma spread_id_inj:
  assumes "spread_id (u, e, t) = spread_id (u', e', t')" "length e = 6" "length e' = 6"
  shows "u = u'" "e = e'"
proof -
  have eq: "u @ (''_'' @ e @ ''_bull_call'') = u' @ (''_'' @ e' @ ''_bull_call'')"
    using assms(1) by (simp add: spread_id_def)
  then have "length (u @ (''_'' @ e @ ''_bull_call'')) = length (u' @ (''_'' @ e' @ ''_bull_call''))"
    by (rule arg_cong)
  then have "length u = length u'"
    using assms(2,3) by simp
  then show "u = u'" "e = e'"
    using eq by auto
qed

text \<open>The second loop, on a dict whose keys have distinct spread ids.\<close>

lemma spreads_fold:
  assumes "distinct (map fst G)"
    and "\<And>k g k' g'. (k, g) \<in> set G \<Longrightarrow> (k', g') \<in> set G \<Longrightarrow> spread_id k = spread_id k' \<Longrightarrow> k = k'"
  shows "map_of (foldl (\<lambda>spreads (key, grp). case pair_legs grp of
                                      Some pair \<Rightarrow> dict_set (spread_id key) pair spreads
                                    | None \<Rightarrow> spreads) S G) sid =
     (case find (\<lambda>(k, g). spread_id k = sid) G of
        None \<Rightarrow> map_of S sid
      | Some (k, g) \<Rightarrow> (case pair_legs g of Some pair \<Rightarrow> Some pair | None \<Rightarrow> map_of S sid))"
  using assms
proof (induction G arbitrary: S)
  case Nil
  then show ?case by simp
next
  case (Cons kg G)
  obtain k g where kg: "kg = (k, g)" by (cases kg)
  let ?step = "\<lambda>spreads (key, grp). case pair_legs grp of
                                      Some pair \<Rightarrow> dict_set (spread_id key) pair spreads
                                    | None \<Rightarrow> spreads"
  have d: "distinct (map fst G)"
    using Cons.prems(1) by simp
  have inj: "\<And>k g k' g'. (k, g) \<in> set G \<Longrightarrow> (k', g') \<in> set G \<Longrightarrow> spread_id k = spread_id k' \<Longrightarrow> k = k'"
    using Cons.prems(2) by (meson list.set_intros(2))
  define T where "T = (case pair_legs g of Some pair \<Rightarrow> dict_set (spread_id k) pair S | None \<Rightarrow> S)"
  have fold_eq: "foldl ?step S (kg # G) = foldl ?step T G"
    by (simp add: kg T_def)
  have IH: "map_of (foldl ?step T G) sid =
     (case find (\<lambda>(k, g). spread_id k = sid) G of
        None \<Rightarrow> map_of T sid
      | Some (k', g') \<Rightarrow> (case pair_legs g' of Some pair \<Rightarrow> Some pair | None \<Rightarrow> map_of T sid))"
    by (rule Cons.IH [OF d inj])
  have T_sid: "map_of T sid =
     (if spread_id k = sid
      then (case pair_legs g of Some pair \<Rightarrow> Some pair | None \<Rightarrow> map_of S sid)
      else map_of S sid)"
    by (auto simp: T_def map_of_dict_set split: option.splits)
  show ?case
  proof (cases "spread_id k = sid")
    case True
    have none: "find (\<lambda>(k, g). spread_id k = sid) G = None"
    proof (rule ccontr)
      assume "find (\<lambda>(k, g). spread_id k = sid) G \<noteq> None"
      then obtain k' g' where in_G: "(k', g') \<in> set G" and "spread_id k' = sid"
        by (auto simp: find_None_iff)
      then have "k = k'"
        using Cons.prems(2) [of k g k' g'] True kg by simp
      then show False
        using in_G Cons.prems(1) kg by (force simp: image_iff)
    qed
    show ?thesis
      unfolding fold_eq IH none using True kg T_sid by simp
  next
    case False
    then have find_eq: "find (\<lambda>(k, g). spread_id k = sid) (kg # G) = find (\<lambda>(k, g). spread_id k = sid) G"
      using kg by simp
    have TS: "map_of T sid = map_of S sid"
      using False T_sid by simp
    show ?thesis
      unfolding fold_eq IH find_eq TS by (rule refl)
  qed
qed

lemma find_unique_key:
  assumes "distinct (map fst G)"
    and "\<And>k g. (k, g) \<in> set G \<Longrightarrow> spread_id k = spread_id k0 \<Longrightarrow> k = k0"
  shows "find (\<lambda>(k, g). spread_id k = spread_id k0) G = map_option (Pair k0) (map_of G k0)"
  using assms
proof (induction G)
  case Nil
  then show ?case by simp
next
  case (Cons kg G)
  obtain k g where kg: "kg = (k, g)" by (cases kg)
  show ?case
  proof (cases "spread_id k = spread_id k0")
    case True
    then have "k = k0" using Cons.prems(2) [of k g] kg by simp
    then show ?thesis using True kg by simp
  next
    case False
    then have "k \<noteq> k0" by auto
    moreover have "find (\<lambda>(k, g). spread_id k = spread_id k0) G = map_option (Pair k0) (map_of G k0)"
    proof (rule Cons.IH)
      show "distinct (map fst G)"
        using Cons.prems(1) by simp
      show "k' = k0" if "(k', g') \<in> set G" "spread_id k' = spread_id k0" for k' g'
        using Cons.prems(2) [of k' g'] that by simp
    qed
    ultimately show ?thesis using False kg by simp
  qed
qed

lemma pair_legs_Nil: "pair_legs [] = None"
  by (simp add: pair_legs_def)

lemma map_of_find_spreads:
  assumes "length e = 6"
  shows "map_of (find_spreads ps) (spread_id (u, e, CHR ''C'')) =
           pair_legs (filter (\<lambda>p. position_key p = Some (u, e, CHR ''C'')) ps)"
proof -
  let ?G = "group_positions ps"
  let ?k0 = "(u, e, CHR ''C'')"
  have wf: "k = ?k0" if "(k, g) \<in> set ?G" "spread_id k = spread_id ?k0" for k g
  proof -
    obtain u' e' t' where k: "k = (u', e', t')" by (cases k)
    have "t' = CHR ''C''" "length e' = 6"
      using group_keys_wellformed that(1) k by blast+
    then show ?thesis
      using spread_id_inj [of u' e' t' u e "CHR ''C''"] that(2) assms k by simp
  qed
  have inj: "k = k'" if "(k, g) \<in> set ?G" "(k', g') \<in> set ?G" "spread_id k = spread_id k'" for k g k' g'
  proof -
    obtain u1 e1 t1 u2 e2 t2 where k: "k = (u1, e1, t1)" "k' = (u2, e2, t2)"
      by (cases k, cases k')
    have "t1 = CHR ''C''" "length e1 = 6" "t2 = CHR ''C''" "length e2 = 6"
      using group_keys_wellformed that(1,2) k by blast+
    then show ?thesis
      using spread_id_inj [of u1 e1 t1 u2 e2 t2] that(3) k by simp
  qed
  have "map_of (find_spreads ps) (spread_id ?k0) =
      (case find (\<lambda>(k, g). spread_id k = spread_id ?k0) ?G of
         None \<Rightarrow> map_of [] (spread_id ?k0)
       | Some (k, g) \<Rightarrow> (case pair_legs g of Some pair \<Rightarrow> Some pair
                           | None \<Rightarrow> map_of [] (spread_id ?k0)))"
    unfolding find_spreads_def
    by (rule spreads_fold [OF distinct_group_positions]) (use inj in blast)
  also have "find (\<lambda>(k, g). spread_id k = spread_id ?k0) ?G = map_option (Pair ?k0) (map_of ?G ?k0)"
    by (rule find_unique_key [OF distinct_group_positions]) (use wf in blast)
  finally show ?thesis
    by (auto simp: map_of_group_positions pair_legs_Nil split: option.splits)
qed

lemma pair_legs_two_lowest:
  "pair_legs g =
     (if 2 \<le> length g \<and> pos_side (sort_key strike_key g ! 0) = ''long'' \<and>
         pos_side (sort_key strike_key g ! 1) = ''short''
      then Some (sort_key strike_key g ! 0, sort_key strike_key g ! 1) else None)"
proof (cases "2 \<le> length g")
  case True
  then have "2 \<le> length (sort_key strike_key g)" by simp
  then obtain a b rest where "sort_key strike_key g = a # b # rest"
    by (cases "sort_key strike_key g"; cases "tl (sort_key strike_key g)") auto
  then show ?thesis using True by (simp add: pair_legs_def)
next
  case False
  then show ?thesis by (simp add: pair_legs_def)
qed

lemma spreads_fold_keys:
  "fst ` set (foldl (\<lambda>spreads (key, grp). case pair_legs grp of
                                      Some pair \<Rightarrow> dict_set (spread_id key) pair spreads
                                    | None \<Rightarrow> spreads) S G)
     \<subseteq> fst ` set S \<union> spread_id ` fst ` set G"
proof (induction G arbitrary: S)
  case Nil
  then show ?case by simp
next
  case (Cons kg G)
  obtain k g where kg: "kg = (k, g)" by (cases kg)
  let ?step = "\<lambda>spreads (key, grp). case pair_legs grp of
                                      Some pair \<Rightarrow> dict_set (spread_id key) pair spreads
                                    | None \<Rightarrow> spreads"
  define T where "T = (case pair_legs g of Some pair \<Rightarrow> dict_set (spread_id k) pair S | None \<Rightarrow> S)"
  have fold_eq: "foldl ?step S (kg # G) = foldl ?step T G"
    by (simp add: kg T_def)
  have T_keys: "fst ` set T \<subseteq> insert (spread_id k) (fst ` set S)"
  proof (cases "pair_legs g")
    case None
    then show ?thesis by (auto simp: T_def)
  next
    case (Some pair)
    then have "T = dict_set (spread_id k) pair S" by (simp add: T_def)
    then show ?thesis by (simp add: keys_dict_set)
  qed
  have "fst ` set (foldl ?step T G) \<subseteq> fst ` set T \<union> spread_id ` fst ` set G"
    by (rule Cons.IH)
  also have "\<dots> \<subseteq> insert (spread_id k) (fst ` set S) \<union> spread_id ` fst ` set G"
    using T_keys by blast
  also have "\<dots> = fst ` set S \<union> spread_id ` fst ` set (kg # G)"
    unfolding kg by simp
  finally show ?case
    unfolding fold_eq .
qed

lemma find_spreads_keys:
  assumes "(sid, pair) \<in> set (find_spreads ps)"
  shows "\<exists>u e. sid = spread_id (u, e, CHR ''C'') \<and> length e = 6"
proof -
  have "fst ` set (find_spreads ps) \<subseteq> spread_id ` fst ` set (group_positions ps)"
    using spreads_fold_keys [of "[]" "group_positions ps"] by (simp add: find_spreads_def)
  moreover have "sid \<in> fst ` set (find_spreads ps)"
    using assms by (rule image_eqI [rotated]) simp
  ultimately have "sid \<in> spread_id ` fst ` set (group_positions ps)"
    by auto
  then obtain kg where kg: "kg \<in> set (group_positions ps)" "sid = spread_id (fst kg)"
    by blast
  obtain u e t g where split: "kg = ((u, e, t), g)"
    by (cases kg) auto
  have "t = CHR ''C''" "length e = 6"
    using group_keys_wellformed [of u e t g ps] kg(1) split by simp_all
  then show ?thesis
    using kg(2) split by auto
qed

text \<open>
  C9 (amended). \<open>find_spreads\<close> files under a key (underlying, expiration, type) only the
  option positions whose symbol parses as a call; puts and everything else are left out.
  For every call key the stored pair is this: the positions of the key, in list order,
  are sorted ascending by strike, and if there are at least two and the lowest-strike one
  is held long and the next one short, these two are the spread of the key; otherwise the
  key has no spread. Every spread of the result belongs to such a key.
\<close>

theorem call_positions_paired:
  assumes "length e = 6"
  shows "map_of (find_spreads all_positions) (spread_id (u, e, CHR ''C'')) =
           (if 2 \<le> length (filter (\<lambda>p. position_key p = Some (u, e, CHR ''C'')) all_positions) \<and>
               pos_side (sort_key strike_key
                  (filter (\<lambda>p. position_key p = Some (u, e, CHR ''C'')) all_positions) ! 0) = ''long'' \<and>
               pos_side (sort_key strike_key
                  (filter (\<lambda>p. position_key p = Some (u, e, CHR ''C'')) all_positions) ! 1) = ''short''
            then Some (sort_key strike_key
                         (filter (\<lambda>p. position_key p = Some (u, e, CHR ''C'')) all_positions) ! 0,
                       sort_key strike_key
                         (filter (\<lambda>p. position_key p = Some (u, e, CHR ''C'')) all_positions) ! 1)
            else None) \<and>
         sorted (map strike_key (sort_key strike_key
            (filter (\<lambda>p. position_key p = Some (u, e, CHR ''C'')) all_positions))) \<and>
         (\<forall>p. position_key p = Some (u, e, CHR ''C'') \<longleftrightarrow>
            contains ''option'' (lower (asset_class p)) \<and>
            parse_option_symbol (pos_symbol p) = Some (u, e, CHR ''C'', strike_key p)) \<and>
         (\<forall>sid pair. (sid, pair) \<in> set (find_spreads all_positions) \<longrightarrow>
            (\<exists>u' e'. sid = spread_id (u', e', CHR ''C'') \<and> length e' = 6))"
proof -
  have key: "position_key p = Some (u, e, CHR ''C'') \<longleftrightarrow>
      contains ''option'' (lower (asset_class p)) \<and>
      parse_option_symbol (pos_symbol p) = Some (u, e, CHR ''C'', strike_key p)" for p
  proof
    assume "position_key p = Some (u, e, CHR ''C'')"
    then show "contains ''option'' (lower (asset_class p)) \<and>
      parse_option_symbol (pos_symbol p) = Some (u, e, CHR ''C'', strike_key p)"
      using position_key_Some(3,4) by blast
  next
    assume a: "contains ''option'' (lower (asset_class p)) \<and>
      parse_option_symbol (pos_symbol p) = Some (u, e, CHR ''C'', strike_key p)"
    then have "u \<noteq> []"
      by (auto simp: parse_option_symbol_def Let_def split: if_splits option.splits)
    then show "position_key p = Some (u, e, CHR ''C'')"
      using a by (simp add: position_key_def)
  qed
  have paired: "map_of (find_spreads all_positions) (spread_id (u, e, CHR ''C'')) =
           (if 2 \<le> length (filter (\<lambda>p. position_key p = Some (u, e, CHR ''C'')) all_positions) \<and>
               pos_side (sort_key strike_key
                  (filter (\<lambda>p. position_key p = Some (u, e, CHR ''C'')) all_positions) ! 0) = ''long'' \<and>
               pos_side (sort_key strike_key
                  (filter (\<lambda>p. position_key p = Some (u, e, CHR ''C'')) all_positions) ! 1) = ''short''
            then Some (sort_key strike_key
                         (filter (\<lambda>p. position_key p = Some (u, e, CHR ''C'')) all_positions) ! 0,
                       sort_key strike_key
                         (filter (\<lambda>p. position_key p = Some (u, e, CHR ''C'')) all_positions) ! 1)
            else None)"
    unfolding map_of_find_spreads [OF assms] by (rule pair_legs_two_lowest)
  have ascending: "sorted (map strike_key (sort_key strike_key
            (filter (\<lambda>p. position_key p = Some (u, e, CHR ''C'')) all_positions)))"
    by (rule sorted_sort_key)
  have keys: "\<forall>p. position_key p = Some (u, e, CHR ''C'') \<longleftrightarrow>
            contains ''option'' (lower (asset_class p)) \<and>
            parse_option_symbol (pos_symbol p) = Some (u, e, CHR ''C'', strike_key p)"
    using key by (rule allI)
  have ids: "\<forall>sid pair. (sid, pair) \<in> set (find_spreads all_positions) \<longrightarrow>
            (\<exists>u' e'. sid = spread_id (u', e', CHR ''C'') \<and> length e' = 6)"
    using find_spreads_keys by blast
  show ?thesis
    by (intro conjI paired ascending keys ids)
qed

lemmas position_eval =
  find_spreads_def group_positions_def position_key_def pair_legs_def strike_key_def
  spread_id_def lower_def parse_option_symbol_def is_upper_def py_int_def strip_def
  is_space_def is_digit_def digit_val_simps

lemma example_find_spreads:
  "find_spreads example_positions =
     [(''AMD_250815_bull_call'',
       \<lparr>pos_symbol = ''AMD250815C00172500'', asset_class = ''us_option'', pos_side = ''long''\<rparr>,
       \<lparr>pos_symbol = ''AMD250815C00175000'', asset_class = ''us_option'', pos_side = ''short''\<rparr>)]"
  by (simp add: example_positions_def position_eval)

theorem call_positions_paired_witness:
  "spread_id (''AMD'', ''250815'', CHR ''C'') = ''AMD_250815_bull_call'' \<and>
   map_of (find_spreads example_positions) ''AMD_250815_bull_call'' =
     Some (\<lparr>pos_symbol = ''AMD250815C00172500'', asset_class = ''us_option'', pos_side = ''long''\<rparr>,
           \<lparr>pos_symbol = ''AMD250815C00175000'', asset_class = ''us_option'', pos_side = ''short''\<rparr>)"
  using call_positions_paired [of "''250815''" example_positions "''AMD''"] example_find_spreads
  by (simp add: spread_id_def)

text \<open>
  C9 as stated fails on puts: two put positions of one underlying and expiration, the
  lower strike long and the higher short, are neither grouped nor paired.
\<close>

theorem put_positions_counterexample:
  "parse_option_symbol ''AMD250815P00172500'' = Some (''AMD'', ''250815'', CHR ''P'', 345 / 2) \<and>
   parse_option_symbol ''AMD250815P00175000'' = Some (''AMD'', ''250815'', CHR ''P'', 175) \<and>
   group_positions example_put_positions = [] \<and>
   find_spreads example_put_positions = []"
  by (simp add: example_put_positions_def position_eval)

section \<open>The moving average series\<close>

lemma rolling_mean_last_full:
  assumes "MA_PERIOD \<le> length xs"
  shows "rolling_mean_last MA_PERIOD xs =
           Some (sum_list (take MA_PERIOD (drop (length xs - MA_PERIOD) xs)) / of_nat MA_PERIOD)"
  using assms by (simp add: rolling_mean_last_def)

text \<open>A live update keeps the two series aligned index by index.\<close>

lemma update_graph_aligned:
  assumes "ma_aligned st"
  shows "ma_aligned (update_graph spread_price st)"
proof (cases spread_price)
  case None
  then show ?thesis using assms by (simp add: update_graph_def)
next
  case (Some p)
  let ?ps = "spread_prices st"
  let ?v = "if MA_PERIOD \<le> length (?ps @ [p]) then rolling_mean_last MA_PERIOD (?ps @ [p]) else None"
  have st': "spread_prices (update_graph spread_price st) = ?ps @ [p]"
    "ma_values (update_graph spread_price st) = ma_values st @ [?v]"
    using Some by (simp_all add: update_graph_def Let_def)
  have len: "length (ma_values st) = length ?ps"
    using assms by (simp add: ma_aligned_def)
  have "(ma_values st @ [?v]) ! i =
      (if i < MA_PERIOD - 1 then None
       else Some (sum_list (take MA_PERIOD (drop (i + 1 - MA_PERIOD) (?ps @ [p]))) / of_nat MA_PERIOD))"
    if i: "i < length (?ps @ [p])" for i
  proof (cases "i < length ?ps")
    case True
    then have old: "(ma_values st @ [?v]) ! i =
        (if i < MA_PERIOD - 1 then None
         else Some (sum_list (take MA_PERIOD (drop (i + 1 - MA_PERIOD) ?ps)) / of_nat MA_PERIOD))"
      using assms len by (simp add: ma_aligned_def nth_append)
    show ?thesis
    proof (cases "i < MA_PERIOD - 1")
      case True
      then show ?thesis using old by simp
    next
      case False
      have eq: "take MA_PERIOD (drop (i + 1 - MA_PERIOD) (?ps @ [p])) =
          take MA_PERIOD (drop (i + 1 - MA_PERIOD) ?ps)"
        using \<open>i < length ?ps\<close> False by (simp add: MA_PERIOD_def)
      show ?thesis
        unfolding eq using old False by simp
    qed
  next
    case False
    then have "i = length ?ps"
      using i by simp
    then show ?thesis
      using len by (auto simp: nth_append rolling_mean_last_def MA_PERIOD_def)
  qed
  then show ?thesis
    unfolding ma_aligned_def st' using len by simp
qed

lemma initial_tracker_aligned: "ma_aligned initial_tracker"
  by (simp add: ma_aligned_def initial_tracker_def)

lemma updates_aligned:
  "ma_aligned st \<Longrightarrow> ma_aligned (foldl (\<lambda>st p. update_graph p st) st live)"
  by (induction live arbitrary: st) (simp_all add: update_graph_aligned)

text \<open>
  The pre-population keeps the alignment when fewer than ten historical prices came back,
  and so does every later update.
\<close>

lemma prepopulate_initial:
  "prepopulate historical initial_tracker =
     \<lparr>spread_prices = List.map_filter historical backfill_minutes,
      ma_values =
        (if MA_PERIOD \<le> length (List.map_filter historical backfill_minutes)
         then replicate (length (List.map_filter historical backfill_minutes) - MA_PERIOD) None @
              [rolling_mean_last MA_PERIOD (List.map_filter historical backfill_minutes)]
         else replicate (length (List.map_filter historical backfill_minutes)) None)\<rparr>"
  by (simp add: prepopulate_def initial_tracker_def Let_def)

lemma prepopulate_short_aligned:
  assumes "length (List.map_filter historical backfill_minutes) < MA_PERIOD"
  shows "ma_aligned (prepopulate historical initial_tracker)"
  unfolding prepopulate_initial using assms
  by (auto simp: ma_aligned_def)

lemma run_tracker_short_aligned:
  assumes "length (List.map_filter historical backfill_minutes) < MA_PERIOD"
  shows "ma_aligned (run_tracker historical live)"
  unfolding run_tracker_def
  by (rule updates_aligned) (rule prepopulate_short_aligned [OF assms])

text \<open>
  With all ten historical prices present the pre-population stores one average for ten
  prices, so the average of the first ten prices stands at index 0.
\<close>

lemma prepopulate_full:
  assumes "length (List.map_filter historical backfill_minutes) = MA_PERIOD"
  shows "ma_values (prepopulate historical initial_tracker) =
           [Some (sum_list (List.map_filter historical backfill_minutes) / of_nat MA_PERIOD)]"
    and "\<not> ma_aligned (prepopulate historical initial_tracker)"
  unfolding prepopulate_initial using assms
  by (simp_all add: ma_aligned_def rolling_mean_last_def MA_PERIOD_def)



end
